theory Spec2Isabelle
  imports Complex_Main
begin

chapter \<open>The model\<close>

section \<open>Geometry primitives (backend/geometry/types.py, transformations.py)\<close>

text \<open>
  Python ints are modelled as \<open>int\<close>, Python floats as real numbers.  Where a property
  depends on the rounding of float arithmetic (the area of a polygon, the measures of the
  layout service), every operation on floats is written as the exact operation followed
  by the rounding to the nearest float, \<open>double_round\<close>.  Exceptions are values: every
  function that can raise returns \<open>error + 'a\<close> with \<open>Inl\<close> the exception.
\<close>

type_synonym Point = "real \<times> real"

type_synonym RectCM = "real \<times> real \<times> real \<times> real"

type_synonym BoundingBox = "real \<times> real \<times> real \<times> real"

datatype error = ValueError string | ZeroDivisionError string | Exception string

text \<open>\<open>str(exc)\<close>: the message an exception was built with.\<close>

fun str_exc :: "error \<Rightarrow> string" where
  "str_exc (ValueError m) = m"
| "str_exc (ZeroDivisionError m) = m"
| "str_exc (Exception m) = m"

text \<open>Sequencing of calls that may raise: the first exception aborts the rest.\<close>

fun bind_err :: "error + 'a \<Rightarrow> ('a \<Rightarrow> error + 'b) \<Rightarrow> error + 'b" where
  "bind_err (Inl e) f = Inl e"
| "bind_err (Inr x) f = f x"

fun rotate_point_90cw :: "Point \<Rightarrow> Point" where
  "rotate_point_90cw (x, y) = (y, - x)"

fun rotate_point_180 :: "Point \<Rightarrow> Point" where
  "rotate_point_180 (x, y) = (- x, - y)"

fun rotate_point_270cw :: "Point \<Rightarrow> Point" where
  "rotate_point_270cw (x, y) = (- y, x)"

text \<open>
  Python's \<open>min(xs)\<close> and \<open>max(xs)\<close> on a list: a left-to-right scan, \<open>ValueError\<close> on
  the empty list (the message is CPython's; nothing below depends on its text).
\<close>

fun py_min :: "real list \<Rightarrow> error + real" where
  "py_min [] = Inl (ValueError ''min() arg is an empty sequence'')"
| "py_min (x # xs) = Inr (fold min xs x)"

fun py_max :: "real list \<Rightarrow> error + real" where
  "py_max [] = Inl (ValueError ''max() arg is an empty sequence'')"
| "py_max (x # xs) = Inr (fold max xs x)"

text \<open>
  \<open>rotate_rect_generic\<close>: \<open>rot % 360\<close> is Python's floored remainder, which is \<open>mod\<close> on
  \<open>int\<close>.  The four corners are never empty, so the \<open>min\<close>/\<open>max\<close> scans are written
  out on the corner list directly.
\<close>

definition rotate_rect_generic :: "RectCM \<Rightarrow> int \<Rightarrow> error + RectCM" where
  "rotate_rect_generic r rot =
     (case r of (x, y, w, h) \<Rightarrow>
        (let corners = [(x, y), (x + w, y), (x + w, y + h), (x, y + h)];
             rot' = rot mod 360
         in bind_err
              (if rot' = 0 then Inr corners
               else if rot' = 90 then Inr (map rotate_point_90cw corners)
               else if rot' = 180 then Inr (map rotate_point_180 corners)
               else if rot' = 270 then Inr (map rotate_point_270cw corners)
               else Inl (ValueError ''Rotation must be multiple of 90.''))
              (\<lambda>rc.
                 (let xs = map fst rc; ys = map snd rc;
                      minx = fold min (tl xs) (hd xs); miny = fold min (tl ys) (hd ys);
                      maxx = fold max (tl xs) (hd xs); maxy = fold max (tl ys) (hd ys)
                  in Inr (minx, miny, maxx - minx, maxy - miny)))))"

section \<open>Double-precision arithmetic\<close>

text \<open>
  A finite Python float is a real number \<open>m * 2 ^ j\<close> with \<open>\<bar>m\<bar> < 2 ^ 53\<close> and
  \<open>- 1074 \<le> j\<close>.  An arithmetic operation on floats returns the float nearest to its exact
  result, a tie going to the float with the even significand.

  \<open>round_half_even\<close> is the integer nearest to a real number, a tie going to the even one,
  and \<open>pow2 e\<close> is 2 to the power \<open>e\<close>.  In \<open>double_round x\<close>, \<open>e\<close> is the binary exponent
  of \<open>x\<close>, not below the exponent of the subnormal numbers, and the floats around \<open>x\<close> are
  the multiples of \<open>pow2 (e - 52)\<close>.  Results beyond the largest float, which Python turns
  into \<open>inf\<close>, are not modelled.
\<close>

definition round_half_even :: "real \<Rightarrow> int" where
  "round_half_even x =
     (let f = \<lfloor>x\<rfloor>; d = x - real_of_int f
      in if d < 1 / 2 then f
         else if d > 1 / 2 then f + 1
         else if even f then f else f + 1)"

definition pow2 :: "int \<Rightarrow> real" where
  "pow2 e = (if 0 \<le> e then 2 ^ nat e else 1 / 2 ^ nat (- e))"

definition double_round :: "real \<Rightarrow> real" where
  "double_round x =
     (if x = 0 then 0
      else (let e = max \<lfloor>log 2 \<bar>x\<bar>\<rfloor> (- 1022);
                ulp = pow2 (e - 52)
            in real_of_int (round_half_even (x / ulp)) * ulp))"

text \<open>The operators \<open>+\<close>, \<open>-\<close>, \<open>*\<close> and \<open>/\<close> on two floats.\<close>

definition float_add :: "real \<Rightarrow> real \<Rightarrow> real" where
  "float_add x y = double_round (x + y)"

definition float_sub :: "real \<Rightarrow> real \<Rightarrow> real" where
  "float_sub x y = double_round (x - y)"

definition float_mul :: "real \<Rightarrow> real \<Rightarrow> real" where
  "float_mul x y = double_round (x * y)"


section \<open>Orthogonal polygons (backend/geometry/polygons.py)\<close>

record OrthoPoly =
  outer :: "Point list"
  holes :: "Point list list"

text \<open>\<open>OrthoPoly.aabb\<close>: the bounding box of the outer loop; \<open>min([])\<close> raises.\<close>

definition aabb :: "OrthoPoly \<Rightarrow> error + BoundingBox" where
  "aabb p =
     (let xs = map fst (outer p); ys = map snd (outer p)
      in bind_err (py_min xs) (\<lambda>minx.
         bind_err (py_min ys) (\<lambda>miny.
         bind_err (py_max xs) (\<lambda>maxx.
         bind_err (py_max ys) (\<lambda>maxy.
         Inr (minx, miny, maxx, maxy))))))"

text \<open>
  \<open>OrthoPoly.translate\<close> rebinds \<open>self.outer\<close> and \<open>self.holes\<close> and returns \<open>None\<close>:
  \<open>translate p dx dy\<close> is the state of the object after the call.
\<close>

definition translate :: "OrthoPoly \<Rightarrow> real \<Rightarrow> real \<Rightarrow> OrthoPoly" where
  "translate p dx dy =
     p\<lparr>outer := map (\<lambda>(x, y). (x + dx, y + dy)) (outer p),
       holes := map (map (\<lambda>(x, y). (x + dx, y + dy))) (holes p)\<rparr>"

text \<open>\<open>OrthoPoly.rotated_copy\<close>: the value of the new object, or the \<open>ValueError\<close>.\<close>

definition rotated_copy :: "OrthoPoly \<Rightarrow> int \<Rightarrow> error + OrthoPoly" where
  "rotated_copy p rot =
     (let rot' = rot mod 360 in
      if rot' = 0 then Inr \<lparr>outer = outer p, holes = holes p\<rparr>
      else if rot' = 90 then
        Inr \<lparr>outer = map rotate_point_90cw (outer p),
             holes = map (map rotate_point_90cw) (holes p)\<rparr>
      else if rot' = 180 then
        Inr \<lparr>outer = map rotate_point_180 (outer p),
             holes = map (map rotate_point_180) (holes p)\<rparr>
      else if rot' = 270 then
        Inr \<lparr>outer = map rotate_point_270cw (outer p),
             holes = map (map rotate_point_270cw) (holes p)\<rparr>
      else Inl (ValueError ''Rotation must be multiple of 90 degrees''))"










text \<open>Width and height of a bounding box \<open>(minx, miny, maxx, maxy)\<close>.\<close>

fun bbox_width :: "BoundingBox \<Rightarrow> real" where
  "bbox_width (minx, miny, maxx, maxy) = maxx - minx"

fun bbox_height :: "BoundingBox \<Rightarrow> real" where
  "bbox_height (minx, miny, maxx, maxy) = maxy - miny"

section \<open>Object identity: which operations build a new polygon\<close>

text \<open>
  To tell a new instance from an update in place, polygons live in a heap: an object is
  an index into the list of all \<open>OrthoPoly\<close> objects built so far, and the constructor
  appends.  The loops of a polygon are Python lists that no method updates in place (the
  methods rebind \<open>self.outer\<close> and \<open>self.holes\<close>), so a heap cell holds their values.
\<close>

type_synonym ref = nat

type_synonym heap = "OrthoPoly list"

text \<open>\<open>OrthoPoly.__init__\<close>: copies the two lists into a new object.\<close>

definition new_OrthoPoly :: "heap \<Rightarrow> Point list \<Rightarrow> Point list list \<Rightarrow> ref \<times> heap" where
  "new_OrthoPoly h outer' holes' = (length h, h @ [\<lparr>outer = outer', holes = holes'\<rparr>])"

text \<open>
  The method \<open>translate\<close> on the object \<open>self\<close>: it assigns to the attributes of \<open>self\<close>
  and returns \<open>None\<close>, so only the heap comes back.
\<close>

definition translate_obj :: "heap \<Rightarrow> ref \<Rightarrow> real \<Rightarrow> real \<Rightarrow> heap" where
  "translate_obj h self dx dy = h[self := translate (h ! self) dx dy]"

text \<open>The method \<open>rotated_copy\<close> on the object \<open>self\<close>: every branch calls the constructor.\<close>

definition rotated_copy_obj :: "heap \<Rightarrow> ref \<Rightarrow> int \<Rightarrow> error + (ref \<times> heap)" where
  "rotated_copy_obj h self rot =
     bind_err (rotated_copy (h ! self) rot) (\<lambda>q. Inr (new_OrthoPoly h (outer q) (holes q)))"

section \<open>Production layout optimiser (frontend/ui/tile_tab.py)\<close>

text \<open>
  What the methods of \<open>TileTab\<close> read from their object: the nesting engine, through its
  method \<open>calculate_global_bbox(tiles_x, tiles_y, medianil_x, medianil_y, objective)\<close>
  (it may raise), and the values of the margin and bed-limit spin boxes.
\<close>

record layout_env =
  nesting_engine :: "int \<Rightarrow> int \<Rightarrow> real \<Rightarrow> real \<Rightarrow> string \<Rightarrow> error + BoundingBox"
  sb_sangria_izquierda :: real
  sb_sangria_derecha :: real
  sb_pinza :: real
  sb_contra_pinza :: real
  sb_xmin :: real
  sb_xmax :: real
  sb_ymin :: real
  sb_ymax :: real


definition apply_margins_to_dims :: "layout_env \<Rightarrow> real \<Rightarrow> real \<Rightarrow> real \<times> real" where
  "apply_margins_to_dims env medida_x medida_y =
     (medida_x + (sb_sangria_izquierda env + sb_sangria_derecha env),
      medida_y + (sb_pinza env + sb_contra_pinza env))"





text \<open>
  The decision text \<open>razon\<close> is an f-string; its value is kept as the numbers it is built
  from.
\<close>

datatype razon = LayoutMinimo int int | LayoutMaximo int int | LayoutIntermedio int

record layout_result =
  tiles_x :: int
  tiles_y :: int
  total_tiles :: int
  width_raw :: real
  height_raw :: real
  ancho :: real
  alto :: real
  area :: real
  objective :: string
  planilla_tipo :: string
  razon :: razon
  tiros_necesarios :: int







text \<open>
  \<open>_compare_layouts\<close>.  A layout is \<open>None\<close> or a dictionary built by
  \<open>_create_layout_result\<close>, which is never empty, so \<open>not layout\<close> tests for \<open>None\<close>.
\<close>

definition compare_layouts :: "layout_result option \<Rightarrow> layout_result option \<Rightarrow> layout_result option" where
  "compare_layouts layout_width layout_height =
     (case (layout_width, layout_height) of
        (None, None) \<Rightarrow> None
      | (None, Some h) \<Rightarrow> Some h
      | (Some w, None) \<Rightarrow> Some w
      | (Some w, Some h) \<Rightarrow>
          if total_tiles w > total_tiles h then Some w
          else if total_tiles h > total_tiles w then Some h
          else if area w < area h then Some w
          else Some h)"

text \<open>
  \<open>_calculate_layout_bounds\<close>: four \<open>while True\<close> loops.  Each is a recursive function on
  the counter it advances; the second component of the result counts the passes through
  the loop body.  The two loops for the minimum leave the method with \<open>return None\<close> when
  the counter passes 100 (\<open>Inr None\<close> here); the two loops for the maximum \<open>break\<close>.
\<close>

function expand_tiles_x_min ::
  "layout_env \<Rightarrow> string \<Rightarrow> real \<Rightarrow> real \<Rightarrow> real \<Rightarrow> int \<Rightarrow> nat \<Rightarrow> (error + int option) \<times> nat" where
  "expand_tiles_x_min env obj medianil_x medianil_y x_min_roland txmin n =
     (case nesting_engine env txmin 1 medianil_x medianil_y obj of
        Inl e \<Rightarrow> (Inl e, Suc n)
      | Inr bbox \<Rightarrow>
          if fst (apply_margins_to_dims env (bbox_width bbox) (bbox_height bbox)) \<ge> x_min_roland
          then (Inr (Some txmin), Suc n)
          else if txmin + 1 > 100 then (Inr None, Suc n)
          else expand_tiles_x_min env obj medianil_x medianil_y x_min_roland (txmin + 1) (Suc n))"
  by pat_completeness auto
termination
  by (relation "measure (\<lambda>(env, obj, mx, my, limit, t, n). nat (101 - t))") auto

function expand_tiles_y_min ::
  "layout_env \<Rightarrow> string \<Rightarrow> real \<Rightarrow> real \<Rightarrow> real \<Rightarrow> int \<Rightarrow> int \<Rightarrow> nat \<Rightarrow> (error + int option) \<times> nat" where
  "expand_tiles_y_min env obj medianil_x medianil_y y_min_roland txmin tymin n =
     (case nesting_engine env txmin tymin medianil_x medianil_y obj of
        Inl e \<Rightarrow> (Inl e, Suc n)
      | Inr bbox \<Rightarrow>
          if snd (apply_margins_to_dims env (bbox_width bbox) (bbox_height bbox)) \<ge> y_min_roland
          then (Inr (Some tymin), Suc n)
          else if tymin + 1 > 100 then (Inr None, Suc n)
          else expand_tiles_y_min env obj medianil_x medianil_y y_min_roland txmin (tymin + 1) (Suc n))"
  by pat_completeness auto
termination
  by (relation "measure (\<lambda>(env, obj, mx, my, limit, tx, t, n). nat (101 - t))") auto

function expand_tiles_x_max ::
  "layout_env \<Rightarrow> string \<Rightarrow> real \<Rightarrow> real \<Rightarrow> real \<Rightarrow> int \<Rightarrow> nat \<Rightarrow> (error + int) \<times> nat" where
  "expand_tiles_x_max env obj medianil_x medianil_y x_max_roland txmax n =
     (case nesting_engine env (txmax + 1) 1 medianil_x medianil_y obj of
        Inl e \<Rightarrow> (Inl e, Suc n)
      | Inr bbox \<Rightarrow>
          if fst (apply_margins_to_dims env (bbox_width bbox) (bbox_height bbox)) > x_max_roland
          then (Inr txmax, Suc n)
          else if txmax + 1 > 100 then (Inr (txmax + 1), Suc n)
          else expand_tiles_x_max env obj medianil_x medianil_y x_max_roland (txmax + 1) (Suc n))"
  by pat_completeness auto
termination
  by (relation "measure (\<lambda>(env, obj, mx, my, limit, t, n). nat (101 - t))") auto

function expand_tiles_y_max ::
  "layout_env \<Rightarrow> string \<Rightarrow> real \<Rightarrow> real \<Rightarrow> real \<Rightarrow> int \<Rightarrow> int \<Rightarrow> nat \<Rightarrow> (error + int) \<times> nat" where
  "expand_tiles_y_max env obj medianil_x medianil_y y_max_roland txmax tymax n =
     (case nesting_engine env txmax (tymax + 1) medianil_x medianil_y obj of
        Inl e \<Rightarrow> (Inl e, Suc n)
      | Inr bbox \<Rightarrow>
          if snd (apply_margins_to_dims env (bbox_width bbox) (bbox_height bbox)) > y_max_roland
          then (Inr tymax, Suc n)
          else if tymax + 1 > 100 then (Inr (tymax + 1), Suc n)
          else expand_tiles_y_max env obj medianil_x medianil_y y_max_roland txmax (tymax + 1) (Suc n))"
  by pat_completeness auto
termination
  by (relation "measure (\<lambda>(env, obj, mx, my, limit, tx, t, n). nat (101 - t))") auto

text \<open>
  The method: \<open>except Exception\<close> turns every exception into \<open>None\<close>, as the two
  \<open>return None\<close> of the loops for the minimum do.
\<close>

definition calculate_layout_bounds ::
  "layout_env \<Rightarrow> string \<Rightarrow> real \<Rightarrow> real \<Rightarrow> real \<Rightarrow> real \<Rightarrow> real \<Rightarrow> real
     \<Rightarrow> (int \<times> int \<times> int \<times> int) option" where
  "calculate_layout_bounds env obj x_min_roland x_max_roland y_min_roland y_max_roland
       medianil_x medianil_y =
     (case fst (expand_tiles_x_min env obj medianil_x medianil_y x_min_roland 1 0) of
        Inl e \<Rightarrow> None
      | Inr None \<Rightarrow> None
      | Inr (Some txmin) \<Rightarrow>
     (case fst (expand_tiles_y_min env obj medianil_x medianil_y y_min_roland txmin 1 0) of
        Inl e \<Rightarrow> None
      | Inr None \<Rightarrow> None
      | Inr (Some tymin) \<Rightarrow>
     (case fst (expand_tiles_x_max env obj medianil_x medianil_y x_max_roland txmin 0) of
        Inl e \<Rightarrow> None
      | Inr txmax \<Rightarrow>
     (case fst (expand_tiles_y_max env obj medianil_x medianil_y y_max_roland txmax tymin 0) of
        Inl e \<Rightarrow> None
      | Inr tymax \<Rightarrow> Some (txmin, tymin, txmax, tymax)))))"

section \<open>The production decision in the words of the specification\<close>






section \<open>Nesting engine (backend/nesting/engine.py)\<close>

type_synonym named_rect = "string \<times> RectCM"

text \<open>
  The fields of \<open>PlanoParams\<close> that the cache key reads (\<open>p.L, p.A, p.h, p.cIzq, p.cDer,
  p.Tapas, p.CSup, p.Bases, p.CInf\<close>).
\<close>

record PlanoParams =
  p_L :: real
  p_A :: real
  p_h :: real
  p_cIzq :: real
  p_cDer :: real
  p_Tapas :: "real list"
  p_CSup :: "real list"
  p_Bases :: "real list"
  p_CInf :: "real list"

type_synonym cache_key =
  "real \<times> real \<times> real \<times> real \<times> real \<times> real list \<times> real list \<times> real list \<times> real list
     \<times> real \<times> real \<times> real \<times> string"

text \<open>
  The dictionaries of the engine.  \<open>motif\<close> holds the keys that the cached pattern and
  the result of a fresh search share; \<open>pattern_data\<close> adds the keys of the cached
  pattern (\<open>cached_objective\<close> is its key \<open>'objective'\<close>), \<open>nesting_result\<close> those of the
  result of a fresh search (\<open>nr_tiles_x\<close> is its key \<open>'tiles_x'\<close>, and so on).
\<close>

record motif =
  poly1 :: OrthoPoly
  rects1 :: "named_rect list"
  poly2T :: OrthoPoly
  rects2T :: "named_rect list"
  poly3T :: OrthoPoly
  rects3T :: "named_rect list"
  dx2 :: real
  dy2 :: real
  dx3 :: real
  dy3 :: real
  rot1 :: int
  rot2 :: int

record pattern_data = motif +
  paso_y :: real
  paso_x :: real
  clearance_cm :: real
  cached_objective :: string

record nesting_result = motif +
  bounding_box :: "real \<times> real \<times> real"
  nr_tiles_x :: int
  nr_tiles_y :: int
  nr_medianil_x :: real
  nr_medianil_y :: real

text \<open>
  Modelled from the spec: the class \<open>NestingCache\<close> (backend/nesting/cache.py is not among
  the sources).  Section 4.4: the cache keeps one most recent pattern, keyed by the cache
  key; \<open>store(value, key)\<close> replaces the slot; \<open>isValid(key)\<close> is value equality against
  the stored key.  The engine reads the slot as the attribute \<open>pattern_data\<close>.  The
  bounded key-value store and the hit and miss counters of the class are not used by the
  engine and are left out.
\<close>

record NestingCache =
  cache_pattern_data :: "pattern_data option"
  cache_stored_key :: "cache_key option"

definition NestingCache_init :: NestingCache where
  "NestingCache_init = \<lparr>cache_pattern_data = None, cache_stored_key = None\<rparr>"

definition cache_store :: "NestingCache \<Rightarrow> pattern_data \<Rightarrow> cache_key \<Rightarrow> NestingCache" where
  "cache_store cache v key = cache\<lparr>cache_pattern_data := Some v, cache_stored_key := Some key\<rparr>"

definition cache_is_valid :: "NestingCache \<Rightarrow> cache_key \<Rightarrow> bool" where
  "cache_is_valid cache key = (cache_stored_key cache = Some key)"

text \<open>
  The engine object.  \<open>evaluations\<close> is not an attribute of the class: it counts the calls
  of the placement search (\<open>best_place_second_tile\<close>, \<open>best_place_third_tile\<close>) made so far.
\<close>

record NestingEngine =
  params :: PlanoParams
  nesting_cache_width :: NestingCache
  nesting_cache_height :: NestingCache
  last_cache_key_width :: "cache_key option"
  last_cache_key_height :: "cache_key option"
  evaluations :: nat

definition NestingEngine_init :: "PlanoParams \<Rightarrow> NestingEngine" where
  "NestingEngine_init p =
     \<lparr>params = p, nesting_cache_width = NestingCache_init,
      nesting_cache_height = NestingCache_init,
      last_cache_key_width = None, last_cache_key_height = None, evaluations = 0\<rparr>"

text \<open>
  What the engine calls and the sources do not hold: the construction of the base tile
  (\<open>build_tile_orthopoly_and_edges_cm\<close> rests on \<open>rects_cm_from_params\<close> and on the polygon
  union of pyclipper), the two placement searches of \<open>NestingAlgorithms\<close>, and the
  constant \<open>DEFAULT_CONSTANTS.EPSILON\<close>.  They are parameters; each call may raise.
\<close>

type_synonym candidate_2tiles =
  "real \<times> real \<times> int \<times> named_rect list \<times> OrthoPoly \<times> real \<times> real \<times> real"

type_synonym candidate_3tiles =
  "real \<times> real \<times> named_rect list \<times> OrthoPoly \<times> real \<times> real \<times> real"

record collaborators =
  build_tile_orthopoly_and_edges_cm :: "PlanoParams \<Rightarrow> error + (OrthoPoly \<times> named_rect list)"
  best_place_second_tile ::
    "OrthoPoly \<Rightarrow> named_rect list \<Rightarrow> real \<Rightarrow> real \<Rightarrow> real \<Rightarrow> string
       \<Rightarrow> error + candidate_2tiles option"
  best_place_third_tile ::
    "OrthoPoly \<Rightarrow> OrthoPoly \<Rightarrow> named_rect list \<Rightarrow> named_rect list \<Rightarrow> int
       \<Rightarrow> real \<Rightarrow> real \<Rightarrow> real \<Rightarrow> string \<Rightarrow> PlanoParams \<Rightarrow> error + candidate_3tiles option"
  EPSILON :: real

text \<open>A comprehension whose body may raise: the first exception ends it.\<close>

fun map_err :: "('a \<Rightarrow> error + 'b) \<Rightarrow> 'a list \<Rightarrow> error + 'b list" where
  "map_err f [] = Inr []"
| "map_err f (x # xs) = bind_err (f x) (\<lambda>y. bind_err (map_err f xs) (\<lambda>ys. Inr (y # ys)))"

text \<open>\<open>rotate_and_align_top_left\<close> (backend/geometry/transformations.py).\<close>

definition rotate_and_align_top_left ::
  "OrthoPoly \<Rightarrow> named_rect list \<Rightarrow> int \<Rightarrow> error + (OrthoPoly \<times> named_rect list)" where
  "rotate_and_align_top_left poly rects rot =
     bind_err (rotated_copy poly rot) (\<lambda>poly_r.
     bind_err (aabb poly_r) (\<lambda>(minx, miny, maxx, maxy).
     bind_err (map_err (\<lambda>(name, r).
                  bind_err (rotate_rect_generic r rot) (\<lambda>(rr0, rr1, rr2, rr3).
                    Inr (name, (rr0 - minx, rr1 - miny, rr2, rr3)))) rects) (\<lambda>new_rects.
     Inr (translate poly_r (- minx) (- miny), new_rects))))"

definition generate_cache_key :: "NestingEngine \<Rightarrow> real \<Rightarrow> real \<Rightarrow> real \<Rightarrow> string \<Rightarrow> cache_key" where
  "generate_cache_key self py px clearance obj =
     (let p = params self
      in (p_L p, p_A p, p_h p, p_cIzq p, p_cDer p, p_Tapas p, p_CSup p, p_Bases p, p_CInf p,
          py, px, clearance, obj))"

definition store_nesting_result ::
  "NestingEngine \<Rightarrow> real \<Rightarrow> real \<Rightarrow> real \<Rightarrow> string \<Rightarrow> OrthoPoly \<Rightarrow> named_rect list
     \<Rightarrow> OrthoPoly \<Rightarrow> named_rect list \<Rightarrow> OrthoPoly \<Rightarrow> named_rect list
     \<Rightarrow> real \<Rightarrow> real \<Rightarrow> real \<Rightarrow> real \<Rightarrow> int \<Rightarrow> int \<Rightarrow> NestingEngine" where
  "store_nesting_result self py px clearance obj p1 r1 p2T r2T p3T r3T x2 y2 x3 y3 ro1 ro2 =
     (let pd = \<lparr>poly1 = \<lparr>outer = outer p1, holes = holes p1\<rparr>, rects1 = r1,
                 poly2T = \<lparr>outer = outer p2T, holes = holes p2T\<rparr>, rects2T = r2T,
                 poly3T = \<lparr>outer = outer p3T, holes = holes p3T\<rparr>, rects3T = r3T,
                 dx2 = x2, dy2 = y2, dx3 = x3, dy3 = y3, rot1 = ro1, rot2 = ro2,
                 paso_y = py, paso_x = px, clearance_cm = clearance, cached_objective = obj\<rparr>;
          cache_key = generate_cache_key self py px clearance obj
      in if obj = ''width'' then
           self\<lparr>nesting_cache_width := cache_store (nesting_cache_width self) pd cache_key,
                last_cache_key_width := Some cache_key\<rparr>
         else
           self\<lparr>nesting_cache_height := cache_store (nesting_cache_height self) pd cache_key,
                last_cache_key_height := Some cache_key\<rparr>)"

text \<open>
  \<open>_render_from_cache\<close>: \<open>None\<close> stands for the \<open>False\<close> of a miss.  A stored pattern
  always has the four metadata keys, so the test for a missing key never fires.  The key
  that is checked is built from the metadata of the stored pattern, not from the
  arguments of the call.
\<close>

definition render_from_cache ::
  "NestingEngine \<Rightarrow> int \<Rightarrow> int \<Rightarrow> real \<Rightarrow> real \<Rightarrow> string \<Rightarrow> pattern_data option" where
  "render_from_cache self tx ty medianil_x medianil_y obj =
     (let cache = (if obj = ''width'' then nesting_cache_width self
                   else nesting_cache_height self)
      in case cache_pattern_data cache of
           None \<Rightarrow> None
         | Some pd \<Rightarrow>
             (let current_key = generate_cache_key self (paso_y pd) (paso_x pd) (clearance_cm pd)
                                  (cached_objective pd)
              in if \<not> cache_is_valid cache current_key then None else Some pd))"

text \<open>
  \<open>calculate_optimal_nesting\<close>.  The best solution so far, with its key; \<open>None\<close> is the
  initial state \<open>global_best = None\<close>, \<open>global_key = (inf, inf, inf)\<close>, against which
  every key is better.
\<close>

type_synonym global_best =
  "int \<times> OrthoPoly \<times> named_rect list \<times> real \<times> real \<times> int \<times> named_rect list \<times> OrthoPoly
     \<times> real \<times> real \<times> named_rect list \<times> OrthoPoly \<times> real \<times> real \<times> real"

definition better_key :: "real \<Rightarrow> real \<times> real \<times> real \<Rightarrow> real \<times> real \<times> real \<Rightarrow> bool" where
  "better_key eps key global_key =
     (case (key, global_key) of ((k0, k1, k2), (g0, g1, g2)) \<Rightarrow>
        if k0 < g0 - eps then True
        else if \<bar>k0 - g0\<bar> \<le> eps then
          (if k1 < g1 - eps then True
           else if \<bar>k1 - g1\<bar> \<le> eps then (if k2 < g2 - eps then True else False)
           else False)
        else False)"

text \<open>The body of the loop \<open>for rot1 in (90, 270)\<close>; a \<open>continue\<close> keeps the best so far.\<close>

definition search_orientation ::
  "collaborators \<Rightarrow> real \<Rightarrow> real \<Rightarrow> real \<Rightarrow> string \<Rightarrow> OrthoPoly \<Rightarrow> named_rect list \<Rightarrow> int
     \<Rightarrow> NestingEngine \<times> ((real \<times> real \<times> real) \<times> global_best) option
     \<Rightarrow> error + (NestingEngine \<times> ((real \<times> real \<times> real) \<times> global_best) option)" where
  "search_orientation c py px clearance obj poly_base rects_base ro1 st =
     (case st of (self, best) \<Rightarrow>
      bind_err (rotate_and_align_top_left poly_base rects_base ro1) (\<lambda>(p1, r1).
      (let self1 = self\<lparr>evaluations := Suc (evaluations self)\<rparr>
       in bind_err (best_place_second_tile c p1 r1 py px clearance obj) (\<lambda>candidate_2tiles.
          case candidate_2tiles of
            None \<Rightarrow> Inr (self1, best)
          | Some (best_x, best_y, ro2, r2T, p2T, gwidth12, gheight12, garea12) \<Rightarrow>
              (let poly2 = translate \<lparr>outer = outer p2T, holes = holes p2T\<rparr> best_x best_y;
                   self2 = self1\<lparr>evaluations := Suc (evaluations self1)\<rparr>
               in bind_err (best_place_third_tile c p1 poly2 r1 r2T ro1 py px clearance obj
                              (params self)) (\<lambda>candidate_3tiles.
                  case candidate_3tiles of
                    None \<Rightarrow> Inr (self2, best)
                  | Some (x3, y3, r3T, p3T, gwidth, gheight, garea) \<Rightarrow>
                      (let key = (if obj = ''width'' then (gwidth, gheight, garea)
                                  else if obj = ''height'' then (gheight, gwidth, garea)
                                  else (garea, gwidth, gheight));
                           better = (case best of
                                       None \<Rightarrow> True
                                     | Some (global_key, b) \<Rightarrow> better_key (EPSILON c) key global_key)
                       in Inr (self2,
                               if better then
                                 Some (key, (ro1, p1, r1, best_x, best_y, ro2, r2T, p2T,
                                             x3, y3, r3T, p3T, gwidth, gheight, garea))
                               else best))))))))"

datatype nesting_output = Cached pattern_data | Computed nesting_result

definition calculate_optimal_nesting ::
  "collaborators \<Rightarrow> NestingEngine \<Rightarrow> int \<Rightarrow> int \<Rightarrow> real \<Rightarrow> real \<Rightarrow> real \<Rightarrow> real \<Rightarrow> real \<Rightarrow> string
     \<Rightarrow> bool \<Rightarrow> error + (nesting_output option \<times> NestingEngine)" where
  "calculate_optimal_nesting c self tx ty py px clearance medianil_x medianil_y obj force_recalculate =
     (case (if \<not> force_recalculate then render_from_cache self tx ty medianil_x medianil_y obj
            else None) of
        Some cached_data \<Rightarrow> Inr (Some (Cached cached_data), self)
      | None \<Rightarrow>
          bind_err (build_tile_orthopoly_and_edges_cm c (params self)) (\<lambda>(poly_base, rects_base).
          bind_err (fold (\<lambda>ro1 acc.
                            bind_err acc
                              (search_orientation c py px clearance obj poly_base rects_base ro1))
                         [90, 270] (Inr (self, None))) (\<lambda>(self', global_best).
            case global_best of
              None \<Rightarrow> Inr (None, self')
            | Some (global_key, (ro1, p1, r1, best_x, best_y, ro2, r2T, p2T,
                                 x3, y3, r3T, p3T, gwidth, gheight, garea)) \<Rightarrow>
                Inr (Some (Computed
                       \<lparr>poly1 = p1, rects1 = r1, poly2T = p2T, rects2T = r2T,
                        poly3T = p3T, rects3T = r3T,
                        dx2 = best_x, dy2 = best_y, dx3 = x3, dy3 = y3, rot1 = ro1, rot2 = ro2,
                        bounding_box = (gwidth, gheight, garea),
                        nr_tiles_x = tx, nr_tiles_y = ty,
                        nr_medianil_x = medianil_x, nr_medianil_y = medianil_y\<rparr>),
                     store_nesting_result self' py px clearance obj p1 r1 p2T r2T p3T r3T
                       best_x best_y x3 y3 ro1 ro2))))"

text \<open>The rotations and offsets of a result, whichever dictionary carries them.\<close>

fun output_transforms :: "nesting_output \<Rightarrow> int \<times> int \<times> real \<times> real \<times> real \<times> real" where
  "output_transforms (Cached pd) = (rot1 pd, rot2 pd, dx2 pd, dy2 pd, dx3 pd, dy3 pd)"
| "output_transforms (Computed r) = (rot1 r, rot2 r, dx2 r, dy2 r, dx3 r, dy3 r)"

section \<open>The global bounding box of a grid (calculate_global_bbox)\<close>

text \<open>
  The polygon and the offset of the tile in column \<open>col\<close> of row \<open>row\<close>: the chain of
  \<open>if col == 0 ... elif ... else\<close> in the inner loop.  \<open>//\<close> and \<open>%\<close> on ints are \<open>div\<close> and
  \<open>mod\<close>.
\<close>

definition tile_placement ::
  "pattern_data \<Rightarrow> real \<Rightarrow> real \<Rightarrow> real \<Rightarrow> int \<Rightarrow> int \<Rightarrow> OrthoPoly \<times> real \<times> real" where
  "tile_placement pd medianil_x medianil_y vertical_offset row col =
     (let row_offset_y = real_of_int row * vertical_offset
      in if col = 0 then (poly1 pd, 0, row_offset_y)
         else if col = 1 then (poly2T pd, dx2 pd + medianil_x, dy2 pd + row_offset_y)
         else if col = 2 then (poly3T pd, dx3 pd + 2 * medianil_x, dy3 pd + row_offset_y)
         else if col mod 2 = 1 then
           (let prev_tile_x = dx3 pd * real_of_int ((col - 1) div 2)
                                + real_of_int (col - 1) * medianil_x;
                prev_tile_y = dy3 pd * real_of_int ((col - 1) div 2)
            in (poly2T pd, prev_tile_x + dx2 pd + medianil_x, prev_tile_y + dy2 pd + row_offset_y))
         else
           (let prev_tile_x = dx2 pd + dx3 pd * real_of_int ((col - 2) div 2)
                                + real_of_int (col - 1) * medianil_x;
                prev_tile_y = dy2 pd + dy3 pd * real_of_int ((col - 2) div 2)
            in (poly3T pd, prev_tile_x + (dx3 pd - dx2 pd) + medianil_x,
                prev_tile_y + (dy3 pd - dy2 pd) + row_offset_y)))"

text \<open>The bounding box of the current tile, moved by its offset.\<close>

definition tile_aabb ::
  "pattern_data \<Rightarrow> real \<Rightarrow> real \<Rightarrow> real \<Rightarrow> int \<Rightarrow> int \<Rightarrow> error + BoundingBox" where
  "tile_aabb pd medianil_x medianil_y vertical_offset row col =
     (case tile_placement pd medianil_x medianil_y vertical_offset row col of
        (current_poly, offset_x, offset_y) \<Rightarrow>
          bind_err (aabb current_poly) (\<lambda>(minx, miny, maxx, maxy).
            Inr (minx + offset_x, miny + offset_y, maxx + offset_x, maxy + offset_y)))"

text \<open>
  The update of the global box.  \<open>None\<close> is the initial box \<open>(inf, inf, -inf, -inf)\<close>, which
  the first tile replaces; it is what the method returns when the grid has no tile.
\<close>

fun update_global :: "BoundingBox option \<Rightarrow> BoundingBox \<Rightarrow> BoundingBox option" where
  "update_global None b = Some b"
| "update_global (Some (global_minx, global_miny, global_maxx, global_maxy)) (minx, miny, maxx, maxy) =
     Some (min global_minx minx, min global_miny miny, max global_maxx maxx, max global_maxy maxy)"

definition calculate_global_bbox ::
  "collaborators \<Rightarrow> NestingEngine \<Rightarrow> int \<Rightarrow> int \<Rightarrow> real \<Rightarrow> real \<Rightarrow> string
     \<Rightarrow> error + BoundingBox option" where
  "calculate_global_bbox c self tx ty medianil_x medianil_y obj =
     (let cache = (if obj = ''width'' then nesting_cache_width self
                   else nesting_cache_height self)
      in case cache_pattern_data cache of
           None \<Rightarrow>
             bind_err (build_tile_orthopoly_and_edges_cm c (params self)) (\<lambda>(poly_base, rs).
             bind_err (rotate_and_align_top_left poly_base [] 90) (\<lambda>(p1, rs').
             bind_err (aabb p1) (\<lambda>b. Inr (Some b))))
         | Some pd \<Rightarrow>
             bind_err (aabb (poly1 pd)) (\<lambda>(minx1, miny1, maxx1, maxy1).
               (let h1 = maxy1 - miny1;
                    vertical_offset = h1 + medianil_y
                in fold (\<lambda>row acc.
                           fold (\<lambda>col acc'.
                                   bind_err acc' (\<lambda>g.
                                     bind_err (tile_aabb pd medianil_x medianil_y vertical_offset row col)
                                       (\<lambda>b. Inr (update_global g b))))
                                [0 .. tx - 1] acc)
                        [0 .. ty - 1] (Inr None))))"

section \<open>Layout service (backend/service/layout_service.py)\<close>

text \<open>
  The dataclasses \<open>LayoutRequest\<close> and \<open>LayoutResponse\<close>, and the dictionary
  \<open>layout_summary\<close>.  The fields \<open>rq_...\<close> are the attributes of the request of that name
  (\<open>rq_tiles_x\<close> is \<open>request.tiles_x\<close>), the fields \<open>ls_...\<close> the keys of the summary.
\<close>

record LayoutRequest =
  rq_params :: PlanoParams
  rq_tiles_x :: int
  rq_tiles_y :: int
  rq_medianil_x :: real
  rq_medianil_y :: real
  rq_paso_y :: real
  rq_paso_x :: real
  rq_clearance_cm :: real
  sangria_izquierda :: real
  sangria_derecha :: real
  pinza :: real
  contra_pinza :: real
  rq_objective :: string

record layout_summary =
  ls_tiles_x :: int
  ls_tiles_y :: int
  planilla :: int
  medida_x_cm :: real
  medida_y_cm :: real
  area_cm2 :: real
  ls_objective :: string

record LayoutResponse =
  success :: bool
  layout :: "layout_summary option"
  message :: "string option"

text \<open>
  \<open>round(x, 2)\<close> on a float: the decimal number with two places nearest to the exact value
  of \<open>x\<close>, a tie going to the even last digit, converted to the nearest float.
\<close>

definition py_round2 :: "real \<Rightarrow> real" where
  "py_round2 x = double_round (real_of_int (round_half_even (x * 100)) / 100)"

text \<open>
  \<open>optimize_layout\<close>.  The parameter \<open>engine\<close> is the pair of calls
  \<open>NestingEngine(request.params).calculate_global_bbox(...)\<close>: it raises, or returns a box,
  or (\<open>None\<close>) a value that \<open>if not bbox\<close> takes for false.  The measures are sums of
  floats, added from left to right.  The second component of the result counts the calls
  of the engine; it is not part of the response.
\<close>

definition optimize_layout ::
  "(PlanoParams \<Rightarrow> int \<Rightarrow> int \<Rightarrow> real \<Rightarrow> real \<Rightarrow> string \<Rightarrow> error + BoundingBox option)
     \<Rightarrow> LayoutRequest \<Rightarrow> LayoutResponse \<times> nat" where
  "optimize_layout engine request =
     (if rq_tiles_x request \<le> 0 \<or> rq_tiles_y request \<le> 0 then
        (\<lparr>success = False, layout = None,
          message = Some ''La cantidad de tiles debe ser mayor a 0 en ambos ejes.''\<rparr>, 0)
      else
        (case engine (rq_params request) (rq_tiles_x request) (rq_tiles_y request)
                (rq_medianil_x request) (rq_medianil_y request) (rq_objective request) of
           Inl exc \<Rightarrow> (\<lparr>success = False, layout = None, message = Some (str_exc exc)\<rparr>, 1)
         | Inr None \<Rightarrow>
             (\<lparr>success = False, layout = None,
               message = Some ''No se pudo calcular el bounding box para el layout solicitado.''\<rparr>, 1)
         | Inr (Some (bbox0, bbox1, bbox2, bbox3)) \<Rightarrow>
             (let medida_x = float_sub bbox2 bbox0;
                  medida_y = float_sub bbox3 bbox1;
                  medida_x_total =
                    float_add (float_add medida_x (sangria_izquierda request))
                      (sangria_derecha request);
                  medida_y_total =
                    float_add (float_add medida_y (pinza request)) (contra_pinza request);
                  summary = \<lparr>ls_tiles_x = rq_tiles_x request, ls_tiles_y = rq_tiles_y request,
                             planilla = rq_tiles_x request * rq_tiles_y request,
                             medida_x_cm = py_round2 medida_x_total,
                             medida_y_cm = py_round2 medida_y_total,
                             area_cm2 = py_round2 (float_mul medida_x_total medida_y_total),
                             ls_objective = rq_objective request\<rparr>
              in (\<lparr>success = True, layout = Some summary, message = None\<rparr>, 1))))"

section \<open>Example inputs\<close>

text \<open>An engine for examples: every tile is 10 wide and 5 high, laid out without gaps.\<close>

definition grid_engine :: "int \<Rightarrow> int \<Rightarrow> real \<Rightarrow> real \<Rightarrow> string \<Rightarrow> error + BoundingBox" where
  "grid_engine tx ty medianil_x medianil_y obj = Inr (0, 0, 10 * real_of_int tx, 5 * real_of_int ty)"

definition grid_env :: "real \<Rightarrow> real \<Rightarrow> real \<Rightarrow> real \<Rightarrow> layout_env" where
  "grid_env x_min x_max y_min y_max =
     \<lparr>nesting_engine = grid_engine,
      sb_sangria_izquierda = 0, sb_sangria_derecha = 0, sb_pinza = 0, sb_contra_pinza = 0,
      sb_xmin = x_min, sb_xmax = x_max, sb_ymin = y_min, sb_ymax = y_max\<rparr>"

text \<open>Example collaborators: a 10 by 5 base tile, and searches that find a fixed placement.\<close>

definition example_collaborators :: collaborators where
  "example_collaborators =
     \<lparr>build_tile_orthopoly_and_edges_cm =
        (\<lambda>p. Inr (\<lparr>outer = [(0, 0), (10, 0), (10, 5), (0, 5)], holes = []\<rparr>, [])),
      best_place_second_tile =
        (\<lambda>p1 r1 py px cl obj. Inr (Some (5, 0, 0, [], p1, 10, 10, 100))),
      best_place_third_tile =
        (\<lambda>p1 p2 r1 r2 ro1 py px cl obj p. Inr (Some (10, 0, [], p1, 15, 10, 150))),
      EPSILON = 1 / 10 ^ 9\<rparr>"

definition example_params :: PlanoParams where
  "example_params =
     \<lparr>p_L = 20, p_A = 15, p_h = 10, p_cIzq = 1, p_cDer = 1,
      p_Tapas = [], p_CSup = [], p_Bases = [], p_CInf = []\<rparr>"

text \<open>An engine for examples: the cache for width holds a pattern of three 5 by 10 tiles.\<close>

definition example_engine :: NestingEngine where
  "example_engine =
     store_nesting_result (NestingEngine_init example_params) (1 / 2) (1 / 10) 0 ''width''
       \<lparr>outer = [(0, 0), (5, 0), (5, 10), (0, 10)], holes = []\<rparr> []
       \<lparr>outer = [(0, 0), (5, 0), (5, 10), (0, 10)], holes = []\<rparr> []
       \<lparr>outer = [(0, 0), (5, 0), (5, 10), (0, 10)], holes = []\<rparr> []
       5 0 10 0 90 0"

chapter \<open>Properties\<close>

section \<open>Rounding to the nearest float\<close>

text \<open>
  \<open>round_half_even\<close> returns the nearest integer, the even one on a tie, and no other
  integer has this property.
\<close>

lemma round_half_even_of_int [simp]: "round_half_even (real_of_int k) = k"
  by (simp add: round_half_even_def)

lemma round_half_even_nearest:
  "\<bar>real_of_int (round_half_even x) - x\<bar> \<le> 1 / 2 \<and>
   (\<bar>real_of_int (round_half_even x) - x\<bar> = 1 / 2 \<longrightarrow> even (round_half_even x))"
proof -
  have "real_of_int \<lfloor>x\<rfloor> \<le> x" "x < real_of_int \<lfloor>x\<rfloor> + 1"
    by linarith+
  then show ?thesis
    by (auto simp: round_half_even_def Let_def)
qed

lemma round_half_even_unique:
  assumes "\<bar>real_of_int k - x\<bar> \<le> 1 / 2"
    and "\<bar>real_of_int k - x\<bar> = 1 / 2 \<longrightarrow> even k"
  shows "round_half_even x = k"
proof -
  let ?r = "round_half_even x"
  have r: "\<bar>real_of_int ?r - x\<bar> \<le> 1 / 2"
      "\<bar>real_of_int ?r - x\<bar> = 1 / 2 \<longrightarrow> even ?r"
    using round_half_even_nearest [of x] by blast+
  have "\<bar>real_of_int ?r - real_of_int k\<bar> \<le> 1"
    using r(1) assms(1) by linarith
  then have "\<bar>?r - k\<bar> \<le> 1"
    by linarith
  then consider "?r = k" | "?r = k + 1" | "?r = k - 1"
    by linarith
  then show ?thesis
  proof cases
    case 1
    then show ?thesis .
  next
    case 2
    then have "real_of_int ?r = real_of_int k + 1"
      by simp
    with r(1) assms(1) have "\<bar>real_of_int ?r - x\<bar> = 1 / 2" "\<bar>real_of_int k - x\<bar> = 1 / 2"
      by linarith+
    with r(2) assms(2) 2 show ?thesis
      by simp
  next
    case 3
    then have "real_of_int ?r = real_of_int k - 1"
      by simp
    with r(1) assms(1) have "\<bar>real_of_int ?r - x\<bar> = 1 / 2" "\<bar>real_of_int k - x\<bar> = 1 / 2"
      by linarith+
    with r(2) assms(2) 3 show ?thesis
      by simp
  qed
qed



lemma pow2_pos [simp]: "0 < pow2 e"
  by (simp add: pow2_def)

lemma pow2_nonneg [simp]: "0 \<le> pow2 e"
  using pow2_pos [of e] by linarith

lemma pow2_abs [simp]: "\<bar>pow2 e\<bar> = pow2 e"
  using pow2_pos [of e] by linarith

lemma pow2_neq0 [simp]: "pow2 e \<noteq> 0"
  using pow2_pos [of e] by linarith

lemma pow2_powr: "pow2 e = 2 powr real_of_int e"
  by (simp add: pow2_def powr_real_of_int field_simps)

lemma pow2_add: "pow2 (a + b) = pow2 a * pow2 b"
  by (simp add: pow2_powr powr_add)

lemma pow2_diff: "pow2 (a - b) = pow2 a / pow2 b"
  by (simp add: pow2_powr powr_diff)

lemma pow2_nonneg_int: "0 \<le> e \<Longrightarrow> pow2 e = real_of_int (2 ^ nat e)"
  by (simp add: pow2_def)

lemma floor_log2:
  assumes "pow2 e \<le> \<bar>x\<bar>" and "\<bar>x\<bar> < pow2 (e + 1)"
  shows "\<lfloor>log 2 \<bar>x\<bar>\<rfloor> = e"
proof -
  have "0 < \<bar>x\<bar>"
    using assms(1) pow2_pos [of e] by linarith
  then show ?thesis
    using assms by (simp add: floor_log_eq_powr_iff pow2_powr)
qed

lemma double_round_eval:
  assumes "pow2 e \<le> \<bar>x\<bar>" and "\<bar>x\<bar> < pow2 (e + 1)"
  shows "double_round x
       = real_of_int (round_half_even (x / pow2 (max e (- 1022) - 52))) * pow2 (max e (- 1022) - 52)"
proof -
  have "0 < \<bar>x\<bar>"
    using assms(1) pow2_pos [of e] by linarith
  then have "x \<noteq> 0"
    by simp
  then show ?thesis
    by (simp add: double_round_def Let_def floor_log2 [OF assms])
qed


lemma double_round_zero [simp]: "double_round 0 = 0"
  by (simp add: double_round_def)

lemma double_round_exact:
  assumes "\<bar>m\<bar> < 2 ^ 53" and "- 1074 \<le> j"
  shows "double_round (real_of_int m * pow2 j) = real_of_int m * pow2 j"
proof (cases "m = 0")
  case True
  then show ?thesis
    by simp
next
  case False
  let ?x = "real_of_int m * pow2 j"
  define e where "e = \<lfloor>log 2 \<bar>?x\<bar>\<rfloor>"
  define s where "s = max e (- 1022) - 52"
  have x0: "?x \<noteq> 0"
    using False by simp
  then have xpos: "0 < \<bar>?x\<bar>"
    by simp
  have "real_of_int \<bar>m\<bar> < 2 ^ 53"
    using assms(1) by (metis of_int_less_numeral_power_cancel_iff)
  then have a: "real_of_int \<bar>m\<bar> * pow2 j < 2 ^ 53 * pow2 j"
    using pow2_pos [of j] by simp
  have b: "\<bar>?x\<bar> = real_of_int \<bar>m\<bar> * pow2 j"
    by (simp add: abs_mult)
  have c: "(2::real) ^ 53 * pow2 j = pow2 (j + 53)"
  proof -
    have "pow2 53 = 2 ^ 53"
      by (simp add: pow2_def)
    then show ?thesis
      using pow2_add [of j 53] by simp
  qed
  have "\<bar>?x\<bar> < pow2 (j + 53)"
    unfolding b c [symmetric] by (rule a)
  then have "\<bar>?x\<bar> < 2 powr real_of_int (j + 53)"
    by (simp only: pow2_powr)
  then have "log 2 \<bar>?x\<bar> < real_of_int (j + 53)"
    using xpos by (simp add: log_less_iff)
  then have "e < j + 53"
    unfolding e_def by (simp add: floor_less_iff)
  then have sj: "s \<le> j"
    using assms(2) by (simp add: s_def)
  have "pow2 j = pow2 (j - s) * pow2 s"
    using pow2_add [of "j - s" s] by simp
  also have "pow2 (j - s) = real_of_int (2 ^ nat (j - s))"
    using sj by (simp add: pow2_nonneg_int)
  finally have pj: "pow2 j = real_of_int (2 ^ nat (j - s)) * pow2 s" .
  have q: "?x / pow2 s = real_of_int (m * 2 ^ nat (j - s))"
    by (simp add: pj)
  have "round_half_even (?x / pow2 s) = m * 2 ^ nat (j - s)"
    unfolding q by (rule round_half_even_of_int)
  then have "real_of_int (round_half_even (?x / pow2 s)) * pow2 s
           = real_of_int (m * 2 ^ nat (j - s)) * pow2 s"
    by (simp only:)
  also have "\<dots> = ?x"
    by (simp add: pj)
  finally have "real_of_int (round_half_even (?x / pow2 s)) * pow2 s = ?x" .
  then show ?thesis
    using x0 unfolding double_round_def Let_def e_def [symmetric] s_def [symmetric] by simp
qed

lemma double_round_int:
  assumes "x \<in> \<int>" and "\<bar>x\<bar> < 9007199254740992"
  shows "double_round x = x"
proof -
  from assms(1) obtain m where m: "x = real_of_int m"
    by (auto elim: Ints_cases)
  have "real_of_int \<bar>m\<bar> < real_of_int 9007199254740992"
    using assms(2) unfolding m by simp
  then have "\<bar>m\<bar> < 9007199254740992"
    by (simp only: of_int_less_iff)
  then have "\<bar>m\<bar> < 2 ^ 53"
    by simp
  then show ?thesis
    using double_round_exact [of m 0] by (simp add: m pow2_def)
qed



section \<open>Rotation: closed forms and rejected angles\<close>

lemma rotated_copy_mod: "rotated_copy p (rot mod 360) = rotated_copy p rot"
  by (simp add: rotated_copy_def)

lemma rotate_rect_generic_mod: "rotate_rect_generic r (rot mod 360) = rotate_rect_generic r rot"
  by (simp add: rotate_rect_generic_def)

lemma mod_360_mod_90: "(rot mod 360) mod 90 = rot mod (90::int)"
  by (rule mod_mod_cancel) simp

lemma not_multiple_of_90:
  fixes rot :: int
  assumes "rot mod 90 \<noteq> 0"
  shows "rot mod 360 \<noteq> 0 \<and> rot mod 360 \<noteq> 90 \<and> rot mod 360 \<noteq> 180 \<and> rot mod 360 \<noteq> 270"
proof -
  have "(rot mod 360) mod 90 \<noteq> 0"
    unfolding mod_360_mod_90 by (rule assms)
  then show ?thesis
    by (auto simp del: mod_mod_trivial)
qed

lemma multiple_of_90:
  fixes rot :: int
  assumes "rot mod 90 = 0"
  shows "rot mod 360 = 0 \<or> rot mod 360 = 90 \<or> rot mod 360 = 180 \<or> rot mod 360 = 270"
proof -
  define m where "m = rot mod 360"
  have range: "0 \<le> m" "m < 360"
    by (simp_all add: m_def)
  have "m mod 90 = 0"
    unfolding m_def mod_360_mod_90 by (rule assms)
  then obtain k where k: "m = 90 * k"
    by (auto simp: mod_eq_0_iff_dvd)
  with range have "0 \<le> k" "k < 4"
    by simp_all
  then have "k = 0 \<or> k = 1 \<or> k = 2 \<or> k = 3"
    by arith
  with k show ?thesis
    unfolding m_def by auto
qed

lemma rotated_copy_succeeds_iff:
  "(\<exists>q. rotated_copy p rot = Inr q) \<longleftrightarrow> rot mod 360 \<in> {0, 90, 180, 270}"
  by (simp add: rotated_copy_def Let_def)

lemma rotate_rect_generic_succeeds_iff:
  "(\<exists>q. rotate_rect_generic r rot = Inr q) \<longleftrightarrow> rot mod 360 \<in> {0, 90, 180, 270}"
  by (cases r) (simp add: rotate_rect_generic_def Let_def)

lemma rotated_copy_rejects:
  assumes "rot mod 90 \<noteq> 0"
  shows "rotated_copy p rot = Inl (ValueError ''Rotation must be multiple of 90 degrees'')"
  using not_multiple_of_90 [OF assms] by (simp add: rotated_copy_def Let_def)

lemma rotate_rect_generic_rejects:
  assumes "rot mod 90 \<noteq> 0"
  shows "rotate_rect_generic r rot = Inl (ValueError ''Rotation must be multiple of 90.'')"
  using not_multiple_of_90 [OF assms] by (cases r) (simp add: rotate_rect_generic_def Let_def)

lemma rotate_point_90cw_lambda: "rotate_point_90cw = (\<lambda>(x, y). (y, - x))"
  by (rule ext) auto

lemma rotate_point_180_lambda: "rotate_point_180 = (\<lambda>(x, y). (- x, - y))"
  by (rule ext) auto

lemma rotate_point_270cw_lambda: "rotate_point_270cw = (\<lambda>(x, y). (- y, x))"
  by (rule ext) auto

text \<open>
  Claim C6.  \<open>rotated_copy\<close> by 90 degrees clockwise sends every point \<open>(x, y)\<close> of the outer
  loop and of every hole to \<open>(y, -x)\<close>, by 180 degrees to \<open>(-x, -y)\<close>, by 270 degrees
  clockwise to \<open>(-y, x)\<close>; an angle that is not a multiple of 90 degrees is rejected with
  \<open>ValueError\<close> and no polygon is produced.
\<close>

theorem rotated_copy_closed_forms:
  "(rot mod 360 = 90 \<longrightarrow>
      rotated_copy p rot =
        Inr \<lparr>outer = map (\<lambda>(x, y). (y, - x)) (outer p),
             holes = map (map (\<lambda>(x, y). (y, - x))) (holes p)\<rparr>) \<and>
   (rot mod 360 = 180 \<longrightarrow>
      rotated_copy p rot =
        Inr \<lparr>outer = map (\<lambda>(x, y). (- x, - y)) (outer p),
             holes = map (map (\<lambda>(x, y). (- x, - y))) (holes p)\<rparr>) \<and>
   (rot mod 360 = 270 \<longrightarrow>
      rotated_copy p rot =
        Inr \<lparr>outer = map (\<lambda>(x, y). (- y, x)) (outer p),
             holes = map (map (\<lambda>(x, y). (- y, x))) (holes p)\<rparr>) \<and>
   (rot mod 90 \<noteq> 0 \<longrightarrow> (\<exists>msg. rotated_copy p rot = Inl (ValueError msg)))"
proof (intro conjI impI)
  assume "rot mod 90 \<noteq> 0"
  then show "\<exists>msg. rotated_copy p rot = Inl (ValueError msg)"
    by (simp add: rotated_copy_rejects)
qed (simp_all add: rotated_copy_def rotate_point_90cw_lambda rotate_point_180_lambda
       rotate_point_270cw_lambda)

theorem rotated_copy_closed_forms_witness:
  "rotated_copy \<lparr>outer = [(0, 0), (10, 0), (10, 5), (0, 5)], holes = [[(2, 1), (3, 1), (3, 2), (2, 2)]]\<rparr> 90
     = Inr \<lparr>outer = [(0, 0), (0, - 10), (5, - 10), (5, 0)],
            holes = [[(1, - 2), (1, - 3), (2, - 3), (2, - 2)]]\<rparr> \<and>
   rotated_copy \<lparr>outer = [(0, 0), (10, 0), (10, 5), (0, 5)], holes = []\<rparr> 180
     = Inr \<lparr>outer = [(0, 0), (- 10, 0), (- 10, - 5), (0, - 5)], holes = []\<rparr> \<and>
   rotated_copy \<lparr>outer = [(0, 0), (10, 0), (10, 5), (0, 5)], holes = []\<rparr> 270
     = Inr \<lparr>outer = [(0, 0), (0, 10), (- 5, 10), (- 5, 0)], holes = []\<rparr> \<and>
   (\<exists>msg. rotated_copy \<lparr>outer = [(0, 0), (10, 0), (10, 5), (0, 5)], holes = []\<rparr> 45
      = Inl (ValueError msg))"
  using
    rotated_copy_closed_forms [of 90 "\<lparr>outer = [(0, 0), (10, 0), (10, 5), (0, 5)],
                                       holes = [[(2, 1), (3, 1), (3, 2), (2, 2)]]\<rparr>"]
    rotated_copy_closed_forms [of 180 "\<lparr>outer = [(0, 0), (10, 0), (10, 5), (0, 5)], holes = []\<rparr>"]
    rotated_copy_closed_forms [of 270 "\<lparr>outer = [(0, 0), (10, 0), (10, 5), (0, 5)], holes = []\<rparr>"]
    rotated_copy_closed_forms [of 45 "\<lparr>outer = [(0, 0), (10, 0), (10, 5), (0, 5)], holes = []\<rparr>"]
  by simp

text \<open>
  Claim C9.  \<open>rotated_copy\<close> normalises the angle modulo 360 and succeeds exactly when the
  remainder is 0, 90, 180 or 270: every multiple of 90, negative or at or above 360, is
  accepted (\<open>-90\<close> acts as \<open>270\<close>, \<open>450\<close> as \<open>90\<close>) and every other angle raises
  \<open>ValueError\<close>; \<open>rotate_rect_generic\<close> does the same on rectangles.
\<close>

theorem rotation_normalised_mod_360:
  "rotated_copy p rot = rotated_copy p (rot mod 360) \<and>
   ((\<exists>q. rotated_copy p rot = Inr q) \<longleftrightarrow> rot mod 360 \<in> {0, 90, 180, 270}) \<and>
   (rot mod 90 = 0 \<longrightarrow> (\<exists>q. rotated_copy p rot = Inr q)) \<and>
   (rot mod 90 \<noteq> 0 \<longrightarrow>
      rotated_copy p rot = Inl (ValueError ''Rotation must be multiple of 90 degrees'')) \<and>
   rotated_copy p (- 90) = rotated_copy p 270 \<and>
   rotated_copy p 450 = rotated_copy p 90 \<and>
   rotate_rect_generic r rot = rotate_rect_generic r (rot mod 360) \<and>
   ((\<exists>q. rotate_rect_generic r rot = Inr q) \<longleftrightarrow> rot mod 360 \<in> {0, 90, 180, 270}) \<and>
   (rot mod 90 = 0 \<longrightarrow> (\<exists>q. rotate_rect_generic r rot = Inr q)) \<and>
   (rot mod 90 \<noteq> 0 \<longrightarrow>
      rotate_rect_generic r rot = Inl (ValueError ''Rotation must be multiple of 90.'')) \<and>
   rotate_rect_generic r (- 90) = rotate_rect_generic r 270 \<and>
   rotate_rect_generic r 450 = rotate_rect_generic r 90"
proof (intro conjI impI)
  show "rotated_copy p rot = rotated_copy p (rot mod 360)"
    by (simp add: rotated_copy_mod)
  show "(\<exists>q. rotated_copy p rot = Inr q) \<longleftrightarrow> rot mod 360 \<in> {0, 90, 180, 270}"
    by (rule rotated_copy_succeeds_iff)
  show "\<exists>q. rotated_copy p rot = Inr q" if "rot mod 90 = 0"
    using multiple_of_90 [OF that] rotated_copy_succeeds_iff [of p rot] by simp
  show "rotated_copy p rot = Inl (ValueError ''Rotation must be multiple of 90 degrees'')"
    if "rot mod 90 \<noteq> 0"
    using that by (rule rotated_copy_rejects)
  show "rotated_copy p (- 90) = rotated_copy p 270"
    using rotated_copy_mod [of p "- 90"] by simp
  show "rotated_copy p 450 = rotated_copy p 90"
    using rotated_copy_mod [of p 450] by simp
  show "rotate_rect_generic r rot = rotate_rect_generic r (rot mod 360)"
    by (simp add: rotate_rect_generic_mod)
  show "(\<exists>q. rotate_rect_generic r rot = Inr q) \<longleftrightarrow> rot mod 360 \<in> {0, 90, 180, 270}"
    by (rule rotate_rect_generic_succeeds_iff)
  show "\<exists>q. rotate_rect_generic r rot = Inr q" if "rot mod 90 = 0"
    using multiple_of_90 [OF that] rotate_rect_generic_succeeds_iff [of r rot] by simp
  show "rotate_rect_generic r rot = Inl (ValueError ''Rotation must be multiple of 90.'')"
    if "rot mod 90 \<noteq> 0"
    using that by (rule rotate_rect_generic_rejects)
  show "rotate_rect_generic r (- 90) = rotate_rect_generic r 270"
    using rotate_rect_generic_mod [of r "- 90"] by simp
  show "rotate_rect_generic r 450 = rotate_rect_generic r 90"
    using rotate_rect_generic_mod [of r 450] by simp
qed

theorem rotation_normalised_mod_360_witness:
  "rotated_copy \<lparr>outer = [(0, 0), (10, 0), (10, 5), (0, 5)], holes = []\<rparr> (- 180)
     = Inr \<lparr>outer = [(0, 0), (- 10, 0), (- 10, - 5), (0, - 5)], holes = []\<rparr> \<and>
   rotated_copy \<lparr>outer = [(0, 0), (10, 0), (10, 5), (0, 5)], holes = []\<rparr> 100
     = Inl (ValueError ''Rotation must be multiple of 90 degrees'') \<and>
   rotate_rect_generic (0, 0, 10, 5) 810 = Inr (0, - 10, 5, 10) \<and>
   rotate_rect_generic (0, 0, 10, 5) (- 30) = Inl (ValueError ''Rotation must be multiple of 90.'')"
proof -
  let ?p = "\<lparr>outer = [(0, 0), (10, 0), (10, 5), (0, 5)], holes = []\<rparr> :: OrthoPoly"
  let ?r = "(0, 0, 10, 5) :: RectCM"
  note a = rotation_normalised_mod_360 [of ?p "- 180" ?r]
  note b = rotation_normalised_mod_360 [of ?p 100 ?r]
  note c = rotation_normalised_mod_360 [of ?p 810 ?r]
  note d = rotation_normalised_mod_360 [of ?p "- 30" ?r]
  have m: "(- 180 :: int) mod 360 = 180" "(100 :: int) mod 90 \<noteq> 0"
    "(810 :: int) mod 360 = 90" "(- 30 :: int) mod 90 \<noteq> 0"
    by simp_all
  have "rotated_copy ?p (- 180) = rotated_copy ?p 180"
    using a m(1) by metis
  moreover have "rotated_copy ?p 100 = Inl (ValueError ''Rotation must be multiple of 90 degrees'')"
    using b m(2) by blast
  moreover have "rotate_rect_generic ?r 810 = rotate_rect_generic ?r 90"
    using c m(3) by metis
  moreover have "rotate_rect_generic ?r (- 30) = Inl (ValueError ''Rotation must be multiple of 90.'')"
    using d m(4) by blast
  ultimately show ?thesis
    by (simp add: rotated_copy_def rotate_rect_generic_def)
qed

section \<open>Rotation swaps the bounding box's sides; the area and its rounding\<close>

















lemma aabb_Inr_iff: "(\<exists>b. aabb p = Inr b) \<longleftrightarrow> outer p \<noteq> []"
  by (cases "outer p") (simp_all add: aabb_def)








section \<open>New instances and updates in place\<close>

lemma rotated_copy_obj_Inr:
  assumes "rotated_copy_obj h self rot = Inr (r, h')"
  shows "\<exists>q. rotated_copy (h ! self) rot = Inr q \<and> r = length h \<and> h' = h @ [q]"
proof (cases "rotated_copy (h ! self) rot")
  case (Inl e)
  with assms show ?thesis
    by (simp add: rotated_copy_obj_def)
next
  case (Inr q)
  with assms show ?thesis
    by (auto simp: rotated_copy_obj_def new_OrthoPoly_def)
qed

text \<open>
  Claim C7, as stated: \<open>translate\<close> leaves the polygon it is called on unchanged.  It does
  not: after \<open>translate(5, 3)\<close> the same object holds the shifted outer loop.
\<close>

theorem translate_mutates_counterexample:
  "\<not> (\<forall>h self dx dy. self < length h \<longrightarrow>
        outer (translate_obj h self dx dy ! self) = outer (h ! self))"
proof
  assume a: "\<forall>h self dx dy. self < length h \<longrightarrow>
        outer (translate_obj h self dx dy ! self) = outer (h ! self)"
  let ?h = "[\<lparr>outer = [(0, 0), (10, 0), (10, 5), (0, 5)], holes = []\<rparr>] :: heap"
  have "outer (translate_obj ?h 0 5 3 ! 0) = outer (?h ! 0)"
    using a by (simp del: nth_Cons_0)
  then show False
    by (simp add: translate_obj_def translate_def)
qed

text \<open>
  Claim C7, amended.  \<open>rotated_copy\<close> returns a new instance and leaves every existing
  polygon, the original included, unchanged; when it raises, nothing is built.
  \<open>translate\<close> builds no instance: it replaces the outer loop and the hole loops of the
  polygon it is called on by the shifted ones, and leaves every other polygon unchanged.
\<close>

theorem rotated_copy_fresh_translate_in_place:
  assumes "self < length h"
  shows "(\<forall>r h'. rotated_copy_obj h self rot = Inr (r, h') \<longrightarrow>
            r \<notin> {0 ..< length h} \<and> length h' = Suc (length h) \<and>
            (\<forall>a < length h. h' ! a = h ! a) \<and> rotated_copy (h ! self) rot = Inr (h' ! r)) \<and>
         ((\<exists>r h'. rotated_copy_obj h self rot = Inr (r, h')) \<longleftrightarrow>
            rot mod 360 \<in> {0, 90, 180, 270}) \<and>
         length (translate_obj h self dx dy) = length h \<and>
         outer (translate_obj h self dx dy ! self) = map (\<lambda>(x, y). (x + dx, y + dy)) (outer (h ! self)) \<and>
         holes (translate_obj h self dx dy ! self)
           = map (map (\<lambda>(x, y). (x + dx, y + dy))) (holes (h ! self)) \<and>
         (\<forall>a < length h. a \<noteq> self \<longrightarrow> translate_obj h self dx dy ! a = h ! a)"
proof (intro conjI allI impI)
  fix r h'
  assume "rotated_copy_obj h self rot = Inr (r, h')"
  then obtain q where q: "rotated_copy (h ! self) rot = Inr q" "r = length h" "h' = h @ [q]"
    using rotated_copy_obj_Inr by blast
  show "r \<notin> {0 ..< length h}"
    using q by simp
  show "length h' = Suc (length h)"
    using q by simp
  show "rotated_copy (h ! self) rot = Inr (h' ! r)"
    using q by simp
  show "h' ! a = h ! a" if "a < length h" for a
    using q that by (simp add: nth_append)
next
  have "(\<exists>r h'. rotated_copy_obj h self rot = Inr (r, h'))
          \<longleftrightarrow> (\<exists>q. rotated_copy (h ! self) rot = Inr q)"
    by (cases "rotated_copy (h ! self) rot") (simp_all add: rotated_copy_obj_def new_OrthoPoly_def)
  then show "(\<exists>r h'. rotated_copy_obj h self rot = Inr (r, h'))
          \<longleftrightarrow> rot mod 360 \<in> {0, 90, 180, 270}"
    by (simp only: rotated_copy_succeeds_iff)
next
  show "length (translate_obj h self dx dy) = length h"
    by (simp add: translate_obj_def)
  show "outer (translate_obj h self dx dy ! self) = map (\<lambda>(x, y). (x + dx, y + dy)) (outer (h ! self))"
    using assms by (simp add: translate_obj_def translate_def)
  show "holes (translate_obj h self dx dy ! self)
           = map (map (\<lambda>(x, y). (x + dx, y + dy))) (holes (h ! self))"
    using assms by (simp add: translate_obj_def translate_def)
  show "translate_obj h self dx dy ! a = h ! a" if "a < length h" "a \<noteq> self" for a
    using that by (simp add: translate_obj_def)
qed

theorem rotated_copy_fresh_translate_in_place_witness:
  "(0::nat) < length [\<lparr>outer = [(0, 0), (10, 0), (10, 5), (0, 5)], holes = []\<rparr>] \<and>
   rotated_copy_obj [\<lparr>outer = [(0, 0), (10, 0), (10, 5), (0, 5)], holes = []\<rparr>] 0 90
     = Inr (1, [\<lparr>outer = [(0, 0), (10, 0), (10, 5), (0, 5)], holes = []\<rparr>,
                \<lparr>outer = [(0, 0), (0, - 10), (5, - 10), (5, 0)], holes = []\<rparr>]) \<and>
   translate_obj [\<lparr>outer = [(0, 0), (10, 0), (10, 5), (0, 5)], holes = []\<rparr>] 0 5 3
     = [\<lparr>outer = [(5, 3), (15, 3), (15, 8), (5, 8)], holes = []\<rparr>]"
proof -
  let ?h = "[\<lparr>outer = [(0, 0), (10, 0), (10, 5), (0, 5)], holes = []\<rparr>] :: heap"
  have l: "(0::nat) < length ?h"
    by simp
  note t = rotated_copy_fresh_translate_in_place [OF l, of 90 5 3]
  have len: "length (translate_obj ?h 0 5 3) = 1"
    using t by simp
  have o: "outer (translate_obj ?h 0 5 3 ! 0) = [(5, 3), (15, 3), (15, 8), (5, 8)]"
    using t by simp
  have hs: "holes (translate_obj ?h 0 5 3 ! 0) = []"
    using t by simp
  obtain c where c: "translate_obj ?h 0 5 3 = [c]"
    using len by (cases "translate_obj ?h 0 5 3") simp_all
  have "c = \<lparr>outer = [(5, 3), (15, 3), (15, 8), (5, 8)], holes = []\<rparr>"
    using o hs c by simp
  with c l show ?thesis
    by (simp add: rotated_copy_obj_def rotated_copy_def new_OrthoPoly_def)
qed

section \<open>Comparing the layouts of the two objectives\<close>

lemma compare_layouts_tie:
  "total_tiles w = total_tiles h \<Longrightarrow> area w = area h
     \<Longrightarrow> compare_layouts (Some w) (Some h) = Some h"
  by (simp add: compare_layouts_def)

text \<open>
  Claim C2.  \<open>_compare_layouts\<close> returns the layout with strictly more total tiles; on
  equal total tiles the one with the smaller area; the present one when exactly one of
  the two is present; no layout when both are absent.  A width layout of 4 tiles and
  area 100 loses against a height layout of 6 tiles and area 120.
\<close>

theorem compare_layouts_tiles_then_area:
  "compare_layouts None None = None \<and>
   compare_layouts (Some w) None = Some w \<and>
   compare_layouts None (Some h) = Some h \<and>
   (total_tiles w > total_tiles h \<longrightarrow> compare_layouts (Some w) (Some h) = Some w) \<and>
   (total_tiles h > total_tiles w \<longrightarrow> compare_layouts (Some w) (Some h) = Some h) \<and>
   (total_tiles w = total_tiles h \<and> area w < area h \<longrightarrow>
      compare_layouts (Some w) (Some h) = Some w) \<and>
   (total_tiles w = total_tiles h \<and> area h < area w \<longrightarrow>
      compare_layouts (Some w) (Some h) = Some h) \<and>
   (total_tiles w = 4 \<and> area w = 100 \<and> total_tiles h = 6 \<and> area h = 120 \<longrightarrow>
      compare_layouts (Some w) (Some h) = Some h)"
  by (simp add: compare_layouts_def)

theorem compare_layouts_tiles_then_area_witness:
  "compare_layouts
     (Some \<lparr>tiles_x = 2, tiles_y = 2, total_tiles = 4, width_raw = 9, height_raw = 8,
            ancho = 10, alto = 10, area = 100, objective = ''width'',
            planilla_tipo = ''minima'', razon = LayoutMinimo 3 5, tiros_necesarios = 3\<rparr>)
     (Some \<lparr>tiles_x = 3, tiles_y = 2, total_tiles = 6, width_raw = 11, height_raw = 8,
            ancho = 12, alto = 10, area = 120, objective = ''height'',
            planilla_tipo = ''minima'', razon = LayoutMinimo 2 5, tiros_necesarios = 2\<rparr>)
   = Some \<lparr>tiles_x = 3, tiles_y = 2, total_tiles = 6, width_raw = 11, height_raw = 8,
            ancho = 12, alto = 10, area = 120, objective = ''height'',
            planilla_tipo = ''minima'', razon = LayoutMinimo 2 5, tiros_necesarios = 2\<rparr> \<and>
   compare_layouts
     (Some \<lparr>tiles_x = 3, tiles_y = 2, total_tiles = 6, width_raw = 9, height_raw = 8,
            ancho = 10, alto = 10, area = 100, objective = ''width'',
            planilla_tipo = ''maxima'', razon = LayoutMaximo 3 3, tiros_necesarios = 3\<rparr>)
     (Some \<lparr>tiles_x = 2, tiles_y = 3, total_tiles = 6, width_raw = 11, height_raw = 8,
            ancho = 12, alto = 10, area = 120, objective = ''height'',
            planilla_tipo = ''maxima'', razon = LayoutMaximo 3 3, tiros_necesarios = 3\<rparr>)
   = Some \<lparr>tiles_x = 3, tiles_y = 2, total_tiles = 6, width_raw = 9, height_raw = 8,
            ancho = 10, alto = 10, area = 100, objective = ''width'',
            planilla_tipo = ''maxima'', razon = LayoutMaximo 3 3, tiros_necesarios = 3\<rparr>"
  using
    compare_layouts_tiles_then_area
      [of "\<lparr>tiles_x = 2, tiles_y = 2, total_tiles = 4, width_raw = 9, height_raw = 8,
            ancho = 10, alto = 10, area = 100, objective = ''width'',
            planilla_tipo = ''minima'', razon = LayoutMinimo 3 5, tiros_necesarios = 3\<rparr>"
          "\<lparr>tiles_x = 3, tiles_y = 2, total_tiles = 6, width_raw = 11, height_raw = 8,
            ancho = 12, alto = 10, area = 120, objective = ''height'',
            planilla_tipo = ''minima'', razon = LayoutMinimo 2 5, tiros_necesarios = 2\<rparr>"]
    compare_layouts_tiles_then_area
      [of "\<lparr>tiles_x = 3, tiles_y = 2, total_tiles = 6, width_raw = 9, height_raw = 8,
            ancho = 10, alto = 10, area = 100, objective = ''width'',
            planilla_tipo = ''maxima'', razon = LayoutMaximo 3 3, tiros_necesarios = 3\<rparr>"
          "\<lparr>tiles_x = 2, tiles_y = 3, total_tiles = 6, width_raw = 11, height_raw = 8,
            ancho = 12, alto = 10, area = 120, objective = ''height'',
            planilla_tipo = ''maxima'', razon = LayoutMaximo 3 3, tiros_necesarios = 3\<rparr>"]
  by simp

section \<open>The bed-limit expansion loops stop\<close>

text \<open>
  The equations of the four loops are recursive without a condition on their left-hand
  sides; they are unfolded by hand, one pass at a time.
\<close>

declare expand_tiles_x_min.simps [simp del]
declare expand_tiles_y_min.simps [simp del]
declare expand_tiles_x_max.simps [simp del]
declare expand_tiles_y_max.simps [simp del]

lemma expand_tiles_x_min_passes:
  "snd (expand_tiles_x_min env obj mx my lm t n) \<le> n + max 1 (nat (101 - t))"
proof (induction env obj mx my lm t n rule: expand_tiles_x_min.induct)
  case (1 env obj mx my lm t n)
  show ?case
    using 1 by (subst expand_tiles_x_min.simps) (auto split: sum.splits)
qed

lemma expand_tiles_y_min_passes:
  "snd (expand_tiles_y_min env obj mx my lm tx t n) \<le> n + max 1 (nat (101 - t))"
proof (induction env obj mx my lm tx t n rule: expand_tiles_y_min.induct)
  case (1 env obj mx my lm tx t n)
  show ?case
    using 1 by (subst expand_tiles_y_min.simps) (auto split: sum.splits)
qed

lemma expand_tiles_x_max_passes:
  "snd (expand_tiles_x_max env obj mx my lm t n) \<le> n + max 1 (nat (101 - t))"
proof (induction env obj mx my lm t n rule: expand_tiles_x_max.induct)
  case (1 env obj mx my lm t n)
  show ?case
    using 1 by (subst expand_tiles_x_max.simps) (auto split: sum.splits)
qed

lemma expand_tiles_y_max_passes:
  "snd (expand_tiles_y_max env obj mx my lm tx t n) \<le> n + max 1 (nat (101 - t))"
proof (induction env obj mx my lm tx t n rule: expand_tiles_y_max.induct)
  case (1 env obj mx my lm tx t n)
  show ?case
    using 1 by (subst expand_tiles_y_max.simps) (auto split: sum.splits)
qed

text \<open>The results of the loops for the minimum lie between the start and 100.\<close>

lemma expand_tiles_x_min_range:
  "fst (expand_tiles_x_min env obj mx my lm t n) = Inr (Some r) \<Longrightarrow> t \<le> r"
proof (induction env obj mx my lm t n rule: expand_tiles_x_min.induct)
  case (1 env obj mx my lm t n)
  from "1.prems" show ?case
    by (subst (asm) expand_tiles_x_min.simps)
       (auto split: sum.splits if_splits dest: "1.IH")
qed

text \<open>
  The cap is hit when no count from the start to 100 reaches the bed minimum: the loop
  then ends with the \<open>return None\<close>.
\<close>

lemma expand_tiles_x_min_cap:
  assumes "t \<le> 100"
    and "\<And>k. t \<le> k \<Longrightarrow> k \<le> 100 \<Longrightarrow>
           \<exists>b. nesting_engine env k 1 mx my obj = Inr b \<and>
               fst (apply_margins_to_dims env (bbox_width b) (bbox_height b)) < lm"
  shows "fst (expand_tiles_x_min env obj mx my lm t n) = Inr None"
  using assms
proof (induction env obj mx my lm t n rule: expand_tiles_x_min.induct)
  case (1 env obj mx my lm t n)
  obtain b where b: "nesting_engine env t 1 mx my obj = Inr b"
      "fst (apply_margins_to_dims env (bbox_width b) (bbox_height b)) < lm"
    using "1.prems"(2) [of t] "1.prems"(1) by auto
  show ?case
  proof (cases "t + 1 > 100")
    case True
    with b show ?thesis
      by (subst expand_tiles_x_min.simps) simp
  next
    case False
    have "fst (expand_tiles_x_min env obj mx my lm (t + 1) (Suc n)) = Inr None"
      using b False "1.prems"(2) by (intro "1.IH") auto
    with b False show ?thesis
      by (subst expand_tiles_x_min.simps) simp
  qed
qed

lemma expand_tiles_y_min_cap:
  assumes "t \<le> 100"
    and "\<And>k. t \<le> k \<Longrightarrow> k \<le> 100 \<Longrightarrow>
           \<exists>b. nesting_engine env tx k mx my obj = Inr b \<and>
               snd (apply_margins_to_dims env (bbox_width b) (bbox_height b)) < lm"
  shows "fst (expand_tiles_y_min env obj mx my lm tx t n) = Inr None"
  using assms
proof (induction env obj mx my lm tx t n rule: expand_tiles_y_min.induct)
  case (1 env obj mx my lm tx t n)
  obtain b where b: "nesting_engine env tx t mx my obj = Inr b"
      "snd (apply_margins_to_dims env (bbox_width b) (bbox_height b)) < lm"
    using "1.prems"(2) [of t] "1.prems"(1) by auto
  show ?case
  proof (cases "t + 1 > 100")
    case True
    with b show ?thesis
      by (subst expand_tiles_y_min.simps) simp
  next
    case False
    have "fst (expand_tiles_y_min env obj mx my lm tx (t + 1) (Suc n)) = Inr None"
      using b False "1.prems"(2) by (intro "1.IH") auto
    with b False show ?thesis
      by (subst expand_tiles_y_min.simps) simp
  qed
qed

lemma expand_tiles_y_min_range:
  "fst (expand_tiles_y_min env obj mx my lm tx t n) = Inr (Some r) \<Longrightarrow> t \<le> r"
proof (induction env obj mx my lm tx t n rule: expand_tiles_y_min.induct)
  case (1 env obj mx my lm tx t n)
  from "1.prems" show ?case
    by (subst (asm) expand_tiles_y_min.simps)
       (auto split: sum.splits if_splits dest: "1.IH")
qed

text \<open>
  Claim C8.  Each of the four expansion loops of \<open>_calculate_layout_bounds\<close> ends after at
  most 100 passes, from the starting points the method gives them.  When the cap is hit
  while \<open>tiles_x\<close> is expanded towards the bed minimum width, or \<open>tiles_y\<close> towards the bed
  minimum height, the method returns \<open>None\<close>: this is so when the loop ends on its cap,
  and in particular when no count from 1 to 100 reaches the minimum.
\<close>

theorem layout_bounds_loops_capped:
  "snd (expand_tiles_x_min env obj mx my x_min_roland 1 0) \<le> 100 \<and>
   (\<forall>txmin. fst (expand_tiles_x_min env obj mx my x_min_roland 1 0) = Inr (Some txmin) \<longrightarrow>
      snd (expand_tiles_y_min env obj mx my y_min_roland txmin 1 0) \<le> 100 \<and>
      snd (expand_tiles_x_max env obj mx my x_max_roland txmin 0) \<le> 100 \<and>
      (\<forall>tymin txmax.
         fst (expand_tiles_y_min env obj mx my y_min_roland txmin 1 0) = Inr (Some tymin) \<longrightarrow>
         snd (expand_tiles_y_max env obj mx my y_max_roland txmax tymin 0) \<le> 100) \<and>
      (fst (expand_tiles_y_min env obj mx my y_min_roland txmin 1 0) = Inr None \<longrightarrow>
         calculate_layout_bounds env obj x_min_roland x_max_roland y_min_roland y_max_roland mx my
           = None) \<and>
      ((\<forall>k \<in> {1 .. 100}. \<exists>b. nesting_engine env txmin k mx my obj = Inr b \<and>
            snd (apply_margins_to_dims env (bbox_width b) (bbox_height b)) < y_min_roland) \<longrightarrow>
         calculate_layout_bounds env obj x_min_roland x_max_roland y_min_roland y_max_roland mx my
           = None)) \<and>
   (fst (expand_tiles_x_min env obj mx my x_min_roland 1 0) = Inr None \<longrightarrow>
      calculate_layout_bounds env obj x_min_roland x_max_roland y_min_roland y_max_roland mx my
        = None) \<and>
   ((\<forall>k \<in> {1 .. 100}. \<exists>b. nesting_engine env k 1 mx my obj = Inr b \<and>
         fst (apply_margins_to_dims env (bbox_width b) (bbox_height b)) < x_min_roland) \<longrightarrow>
      calculate_layout_bounds env obj x_min_roland x_max_roland y_min_roland y_max_roland mx my
        = None)"
proof (intro conjI allI impI)
  show "snd (expand_tiles_x_min env obj mx my x_min_roland 1 0) \<le> 100"
    using expand_tiles_x_min_passes [of env obj mx my x_min_roland 1 0] by simp
next
  fix txmin
  assume x: "fst (expand_tiles_x_min env obj mx my x_min_roland 1 0) = Inr (Some txmin)"
  then have tx1: "1 \<le> txmin"
    by (rule expand_tiles_x_min_range)
  show "snd (expand_tiles_y_min env obj mx my y_min_roland txmin 1 0) \<le> 100"
    using expand_tiles_y_min_passes [of env obj mx my y_min_roland txmin 1 0] by simp
  show "snd (expand_tiles_x_max env obj mx my x_max_roland txmin 0) \<le> 100"
    using expand_tiles_x_max_passes [of env obj mx my x_max_roland txmin 0] tx1 by simp
  show "snd (expand_tiles_y_max env obj mx my y_max_roland txmax tymin 0) \<le> 100"
    if "fst (expand_tiles_y_min env obj mx my y_min_roland txmin 1 0) = Inr (Some tymin)"
    for tymin txmax
  proof -
    have "1 \<le> tymin"
      using that by (rule expand_tiles_y_min_range)
    then show ?thesis
      using expand_tiles_y_max_passes [of env obj mx my y_max_roland txmax tymin 0] by simp
  qed
  show y_cap: "calculate_layout_bounds env obj x_min_roland x_max_roland y_min_roland y_max_roland mx my
      = None"
    if "fst (expand_tiles_y_min env obj mx my y_min_roland txmin 1 0) = Inr None"
    using x that by (simp add: calculate_layout_bounds_def)
  show "calculate_layout_bounds env obj x_min_roland x_max_roland y_min_roland y_max_roland mx my
      = None"
    if "\<forall>k \<in> {1 .. 100}. \<exists>b. nesting_engine env txmin k mx my obj = Inr b \<and>
            snd (apply_margins_to_dims env (bbox_width b) (bbox_height b)) < y_min_roland"
  proof -
    have "fst (expand_tiles_y_min env obj mx my y_min_roland txmin 1 0) = Inr None"
      using that by (intro expand_tiles_y_min_cap) auto
    then show ?thesis
      by (rule y_cap)
  qed
next
  show x_cap: "calculate_layout_bounds env obj x_min_roland x_max_roland y_min_roland y_max_roland mx my
      = None"
    if "fst (expand_tiles_x_min env obj mx my x_min_roland 1 0) = Inr None"
    using that by (simp add: calculate_layout_bounds_def)
  show "calculate_layout_bounds env obj x_min_roland x_max_roland y_min_roland y_max_roland mx my
      = None"
    if "\<forall>k \<in> {1 .. 100}. \<exists>b. nesting_engine env k 1 mx my obj = Inr b \<and>
            fst (apply_margins_to_dims env (bbox_width b) (bbox_height b)) < x_min_roland"
  proof -
    have "fst (expand_tiles_x_min env obj mx my x_min_roland 1 0) = Inr None"
      using that by (intro expand_tiles_x_min_cap) auto
    then show ?thesis
      by (rule x_cap)
  qed
qed

theorem layout_bounds_loops_capped_witness:
  "snd (expand_tiles_x_min (grid_env 2000 3000 20 100) ''width'' 0 0 2000 1 0) \<le> 100 \<and>
   calculate_layout_bounds (grid_env 2000 3000 20 100) ''width'' 2000 3000 20 100 0 0 = None"
proof -
  have "\<forall>k \<in> {1 .. 100}. \<exists>b. nesting_engine (grid_env 2000 3000 20 100) k 1 0 0 ''width'' = Inr b \<and>
          fst (apply_margins_to_dims (grid_env 2000 3000 20 100) (bbox_width b) (bbox_height b)) < 2000"
    by (simp add: grid_env_def grid_engine_def apply_margins_to_dims_def)
  then show ?thesis
    using layout_bounds_loops_capped
      [of "grid_env 2000 3000 20 100" "''width''" 0 0 2000 20 3000 100]
    by blast
qed

section \<open>The production decision\<close>

lemma fold_bind_err_Inl:
  "fold (\<lambda>x acc. bind_err acc (f x)) xs (Inl e) = Inl e"
  by (induction xs) simp_all

lemma nested_fold_product:
  "fold (\<lambda>x acc. fold (\<lambda>y acc'. f x y acc') ys acc) xs a
     = fold (\<lambda>(x, y). f x y) (List.product xs ys) a"
proof (induction xs arbitrary: a)
  case Nil
  show ?case by simp
next
  case (Cons x xs)
  have "fold (\<lambda>(x, y). f x y) (map (Pair x) ys) a = fold (f x) ys a"
    by (simp add: fold_map comp_def)
  with Cons show ?case
    by simp
qed












section \<open>A second call with the same arguments is served from the cache\<close>

lemma bind_err_Inr:
  "bind_err m f = Inr y \<longleftrightarrow> (\<exists>x. m = Inr x \<and> f x = Inr y)"
  by (cases m) simp_all

text \<open>The search changes nothing of the engine but the count of its evaluations.\<close>

lemma bind_err_case: "bind_err m f = (case m of Inl e \<Rightarrow> Inl e | Inr x \<Rightarrow> f x)"
  by (cases m) simp_all

lemma search_orientation_frame_case:
  "case search_orientation c py px cl obj poly_base rects_base ro1 (self, best) of
     Inl e \<Rightarrow> True
   | Inr st \<Rightarrow> fst st = self\<lparr>evaluations := evaluations (fst st)\<rparr>"
  by (simp add: search_orientation_def bind_err_case Let_def split_beta
           split: sum.splits option.splits)

lemma search_orientation_frame:
  assumes "search_orientation c py px cl obj poly_base rects_base ro1 (self, best) = Inr (self', best')"
  shows "\<exists>n. self' = self\<lparr>evaluations := n\<rparr>"
proof -
  have "case search_orientation c py px cl obj poly_base rects_base ro1 (self, best) of
          Inl e \<Rightarrow> True
        | Inr st \<Rightarrow> fst st = self\<lparr>evaluations := evaluations (fst st)\<rparr>"
    by (rule search_orientation_frame_case)
  with assms have "self' = self\<lparr>evaluations := evaluations self'\<rparr>"
    by simp
  then show ?thesis ..
qed

lemma search_loop_frame:
  assumes "fold (\<lambda>ro1 acc. bind_err acc (search_orientation c py px cl obj poly_base rects_base ro1))
             rots (Inr (self, best)) = Inr (self', best')"
  shows "\<exists>n. self' = self\<lparr>evaluations := n\<rparr>"
  using assms
proof (induction rots arbitrary: self best)
  case Nil
  then have "self' = self\<lparr>evaluations := evaluations self\<rparr>"
    by simp
  then show ?case ..
next
  case (Cons ro1 rots)
  show ?case
  proof (cases "search_orientation c py px cl obj poly_base rects_base ro1 (self, best)")
    case (Inl e)
    with Cons.prems show ?thesis
      by (simp add: fold_bind_err_Inl)
  next
    case (Inr st)
    obtain self1 best1 where st: "st = (self1, best1)"
      by (cases st)
    obtain n1 where one: "self1 = self\<lparr>evaluations := n1\<rparr>"
      using Inr st search_orientation_frame by blast
    have "fold (\<lambda>ro1 acc. bind_err acc (search_orientation c py px cl obj poly_base rects_base ro1))
             rots (Inr (self1, best1)) = Inr (self', best')"
      using Cons.prems Inr st by simp
    then obtain n2 where "self' = self1\<lparr>evaluations := n2\<rparr>"
      using Cons.IH by blast
    then have "self' = self\<lparr>evaluations := n2\<rparr>"
      unfolding one by simp
    then show ?thesis ..
  qed
qed

text \<open>After a result is stored, the cache of its objective answers with that result.\<close>

lemma render_after_store:
  "render_from_cache
     (store_nesting_result self py px cl obj p1 r1 p2T r2T p3T r3T x2 y2 x3 y3 ro1 ro2)
     tx ty mx my obj
   = Some \<lparr>poly1 = \<lparr>outer = outer p1, holes = holes p1\<rparr>, rects1 = r1,
            poly2T = \<lparr>outer = outer p2T, holes = holes p2T\<rparr>, rects2T = r2T,
            poly3T = \<lparr>outer = outer p3T, holes = holes p3T\<rparr>, rects3T = r3T,
            dx2 = x2, dy2 = y2, dx3 = x3, dy3 = y3, rot1 = ro1, rot2 = ro2,
            paso_y = py, paso_x = px, clearance_cm = cl, cached_objective = obj\<rparr>"
  by (simp add: render_from_cache_def store_nesting_result_def Let_def cache_store_def
        cache_is_valid_def generate_cache_key_def)

text \<open>
  The two ways a call returns a result: from the cache, with the engine as it was, or
  from the search, with the result stored in an engine that differs from the old one in
  the count of evaluations only.
\<close>

lemma calculate_optimal_nesting_Some:
  assumes "calculate_optimal_nesting c self tx ty py px cl mx my obj force = Inr (Some r, self')"
  shows "(\<exists>pd. \<not> force \<and> render_from_cache self tx ty mx my obj = Some pd \<and>
               r = Cached pd \<and> self' = self) \<or>
         (\<exists>n p1 r1 p2T r2T p3T r3T x2 y2 x3 y3 ro1 ro2 bb.
            self' = store_nesting_result (self\<lparr>evaluations := n\<rparr>) py px cl obj
                      p1 r1 p2T r2T p3T r3T x2 y2 x3 y3 ro1 ro2 \<and>
            r = Computed \<lparr>poly1 = p1, rects1 = r1, poly2T = p2T, rects2T = r2T,
                          poly3T = p3T, rects3T = r3T,
                          dx2 = x2, dy2 = y2, dx3 = x3, dy3 = y3, rot1 = ro1, rot2 = ro2,
                          bounding_box = bb, nr_tiles_x = tx, nr_tiles_y = ty,
                          nr_medianil_x = mx, nr_medianil_y = my\<rparr>)"
proof (cases "if \<not> force then render_from_cache self tx ty mx my obj else None")
  case (Some pd)
  with assms have "r = Cached pd \<and> self' = self"
    by (simp add: calculate_optimal_nesting_def)
  moreover from Some have "\<not> force \<and> render_from_cache self tx ty mx my obj = Some pd"
    by (simp split: if_splits)
  ultimately show ?thesis
    by blast
next
  case None
  let ?R = "\<lambda>b :: (real \<times> real \<times> real) \<times> global_best.
              Computed \<lparr>poly1 = fst (snd (snd b)), rects1 = fst (snd (snd (snd b))),
                          poly2T = fst (snd (snd (snd (snd (snd (snd (snd (snd b)))))))),
                          rects2T = fst (snd (snd (snd (snd (snd (snd (snd b))))))),
                          poly3T = fst (snd (snd (snd (snd (snd (snd (snd (snd (snd (snd (snd (snd b)))))))))))),
                          rects3T = fst (snd (snd (snd (snd (snd (snd (snd (snd (snd (snd (snd b))))))))))),
                          dx2 = fst (snd (snd (snd (snd b)))),
                          dy2 = fst (snd (snd (snd (snd (snd b))))),
                          dx3 = fst (snd (snd (snd (snd (snd (snd (snd (snd (snd b))))))))),
                          dy3 = fst (snd (snd (snd (snd (snd (snd (snd (snd (snd (snd b)))))))))),
                          rot1 = fst (snd b),
                          rot2 = fst (snd (snd (snd (snd (snd (snd b)))))),
                          bounding_box = snd (snd (snd (snd (snd (snd (snd (snd (snd (snd (snd (snd (snd b)))))))))))),
                          nr_tiles_x = tx, nr_tiles_y = ty,
                          nr_medianil_x = mx, nr_medianil_y = my\<rparr>"
  let ?S = "\<lambda>(s :: NestingEngine) (b :: (real \<times> real \<times> real) \<times> global_best).
              store_nesting_result s py px cl obj
                      (fst (snd (snd b))) (fst (snd (snd (snd b))))
                      (fst (snd (snd (snd (snd (snd (snd (snd (snd b)))))))))
                      (fst (snd (snd (snd (snd (snd (snd (snd b))))))))
                      (fst (snd (snd (snd (snd (snd (snd (snd (snd (snd (snd (snd (snd b)))))))))))))
                      (fst (snd (snd (snd (snd (snd (snd (snd (snd (snd (snd (snd b))))))))))))
                      (fst (snd (snd (snd (snd b))))) (fst (snd (snd (snd (snd (snd b))))))
                      (fst (snd (snd (snd (snd (snd (snd (snd (snd (snd b))))))))))
                      (fst (snd (snd (snd (snd (snd (snd (snd (snd (snd (snd b)))))))))))
                      (fst (snd b)) (fst (snd (snd (snd (snd (snd (snd b)))))))"
  have unfolded: "calculate_optimal_nesting c self tx ty py px cl mx my obj force
      = bind_err (build_tile_orthopoly_and_edges_cm c (params self)) (\<lambda>pb.
          bind_err (fold (\<lambda>ro1 acc.
                            bind_err acc
                              (search_orientation c py px cl obj (fst pb) (snd pb) ro1))
                         [90, 270] (Inr (self, None))) (\<lambda>st.
            case snd st of
              None \<Rightarrow> Inr (None, fst st)
            | Some b \<Rightarrow> Inr (Some (?R b), ?S (fst st) b)))"
    unfolding calculate_optimal_nesting_def None by (simp add: case_prod_unfold)
  let ?L = "\<lambda>pb st. fold (\<lambda>ro1 acc.
                   bind_err acc (search_orientation c py px cl obj (fst pb) (snd pb) ro1))
             [90, 270] (Inr (self, None)) = Inr st"
  let ?O = "\<lambda>st. (case snd st of
                 None \<Rightarrow> Inr (None, fst st)
               | Some b \<Rightarrow> Inr (Some (?R b), ?S (fst st) b))
              = (Inr (Some r, self') :: error + nesting_output option \<times> NestingEngine)"
  from assms have "\<exists>pb. build_tile_orthopoly_and_edges_cm c (params self) = Inr pb \<and>
                    (\<exists>st. ?L pb st \<and> ?O st)"
    unfolding unfolded bind_err_Inr .
  then obtain pb where "build_tile_orthopoly_and_edges_cm c (params self) = Inr pb \<and>
                    (\<exists>st. ?L pb st \<and> ?O st)" ..
  then have "\<exists>st. ?L pb st \<and> ?O st" ..
  then obtain st where both: "?L pb st \<and> ?O st" ..
  from both have loop: "?L pb st" ..
  from both have out: "?O st" ..
  obtain n where n: "fst st = self\<lparr>evaluations := n\<rparr>"
    using search_loop_frame [of c py px cl obj "fst pb" "snd pb" "[90, 270]" self None "fst st" "snd st"]
      loop by auto
  from out obtain b where gb: "snd st = Some b"
    by (cases "snd st") simp_all
  from out have "self' = ?S (fst st) b \<and> r = ?R b"
    unfolding gb by simp
  then show ?thesis
    unfolding n by blast
qed

lemma render_from_cache_slot:
  assumes "render_from_cache self tx ty mx my obj = Some pd"
  shows "cache_pattern_data (if obj = ''width'' then nesting_cache_width self
                             else nesting_cache_height self) = Some pd"
  using assms by (auto simp: render_from_cache_def Let_def split: option.splits if_splits)

lemma render_from_cache_any_grid:
  "render_from_cache self tx ty mx my obj = render_from_cache self tx' ty' mx' my' obj"
  by (simp add: render_from_cache_def)

text \<open>
  Claim C5.  If a call of \<open>calculate_optimal_nesting\<close> returns a result, a second call
  with the same arguments and \<open>force_recalculate = False\<close>, on the engine the first call
  leaves, returns the pattern stored in the cache of that objective, with the rotations
  and offsets of the first result, and leaves the engine as it is: no placement search is
  evaluated.
\<close>

theorem second_call_served_from_cache:
  assumes "calculate_optimal_nesting c self tx ty py px cl mx my obj force = Inr (Some r, self')"
  shows "\<exists>pd self''.
           calculate_optimal_nesting c self' tx ty py px cl mx my obj False
             = Inr (Some (Cached pd), self'') \<and>
           self'' = self' \<and> evaluations self'' = evaluations self' \<and>
           cache_pattern_data (if obj = ''width'' then nesting_cache_width self'
                               else nesting_cache_height self') = Some pd \<and>
           output_transforms (Cached pd) = output_transforms r"
proof -
  have hit: "\<exists>pd. render_from_cache self' tx ty mx my obj = Some pd \<and>
                 output_transforms (Cached pd) = output_transforms r"
    using calculate_optimal_nesting_Some [OF assms]
  proof
    assume "\<exists>pd. \<not> force \<and> render_from_cache self tx ty mx my obj = Some pd \<and>
               r = Cached pd \<and> self' = self"
    then show ?thesis
      by auto
  next
    assume "\<exists>n p1 r1 p2T r2T p3T r3T x2 y2 x3 y3 ro1 ro2 bb.
            self' = store_nesting_result (self\<lparr>evaluations := n\<rparr>) py px cl obj
                      p1 r1 p2T r2T p3T r3T x2 y2 x3 y3 ro1 ro2 \<and>
            r = Computed \<lparr>poly1 = p1, rects1 = r1, poly2T = p2T, rects2T = r2T,
                          poly3T = p3T, rects3T = r3T,
                          dx2 = x2, dy2 = y2, dx3 = x3, dy3 = y3, rot1 = ro1, rot2 = ro2,
                          bounding_box = bb, nr_tiles_x = tx, nr_tiles_y = ty,
                          nr_medianil_x = mx, nr_medianil_y = my\<rparr>"
    then obtain n p1 r1 p2T r2T p3T r3T x2 y2 x3 y3 ro1 ro2 bb where
      s: "self' = store_nesting_result (self\<lparr>evaluations := n\<rparr>) py px cl obj
                      p1 r1 p2T r2T p3T r3T x2 y2 x3 y3 ro1 ro2"
      and r: "r = Computed \<lparr>poly1 = p1, rects1 = r1, poly2T = p2T, rects2T = r2T,
                          poly3T = p3T, rects3T = r3T,
                          dx2 = x2, dy2 = y2, dx3 = x3, dy3 = y3, rot1 = ro1, rot2 = ro2,
                          bounding_box = bb, nr_tiles_x = tx, nr_tiles_y = ty,
                          nr_medianil_x = mx, nr_medianil_y = my\<rparr>"
      by blast
    show ?thesis
      unfolding s r render_after_store by simp
  qed
  then obtain pd where pd: "render_from_cache self' tx ty mx my obj = Some pd"
      "output_transforms (Cached pd) = output_transforms r"
    by blast
  have "calculate_optimal_nesting c self' tx ty py px cl mx my obj False
          = Inr (Some (Cached pd), self')"
    using pd(1) by (simp add: calculate_optimal_nesting_def)
  with pd(2) render_from_cache_slot [OF pd(1)] show ?thesis
    by blast
qed

theorem second_call_served_from_cache_witness:
  "\<exists>r self' pd.
     calculate_optimal_nesting example_collaborators (NestingEngine_init example_params)
         3 2 (1 / 2) (1 / 10) 0 0 0 ''width'' False = Inr (Some (Computed r), self') \<and>
     evaluations self' = 4 \<and>
     calculate_optimal_nesting example_collaborators self'
         3 2 (1 / 2) (1 / 10) 0 0 0 ''width'' False = Inr (Some (Cached pd), self') \<and>
     (rot1 pd, rot2 pd, dx2 pd, dy2 pd, dx3 pd, dy3 pd) = (90, 0, 5, 0, 10, 0)"
proof -
  obtain r self' where first:
    "calculate_optimal_nesting example_collaborators (NestingEngine_init example_params)
         3 2 (1 / 2) (1 / 10) 0 0 0 ''width'' False = Inr (Some (Computed r), self')"
    and ev: "evaluations self' = 4"
    and tr: "output_transforms (Computed r) = (90, 0, 5, 0, 10, 0)"
    by (simp add: calculate_optimal_nesting_def render_from_cache_def NestingEngine_init_def
          NestingCache_init_def example_collaborators_def search_orientation_def
          rotate_and_align_top_left_def rotated_copy_def aabb_def better_key_def
          store_nesting_result_def Let_def)
  from second_call_served_from_cache [OF first] tr
  obtain pd where "calculate_optimal_nesting example_collaborators self'
         3 2 (1 / 2) (1 / 10) 0 0 0 ''width'' False = Inr (Some (Cached pd), self')"
      "output_transforms (Cached pd) = (90, 0, 5, 0, 10, 0)"
    by auto
  with first ev show ?thesis
    by auto
qed

section \<open>The global bounding box grows with the grid\<close>

lemma fold_min_le: "fold min xs x \<le> (x::real)"
proof (induction xs arbitrary: x)
  case Nil
  show ?case by simp
next
  case (Cons a xs)
  have "fold min xs (min a x) \<le> min a x"
    by (rule Cons.IH)
  then show ?case
    by simp
qed

lemma le_fold_max: "(x::real) \<le> fold max xs x"
proof (induction xs arbitrary: x)
  case Nil
  show ?case by simp
next
  case (Cons a xs)
  have "max a x \<le> fold max xs (max a x)"
    by (rule Cons.IH)
  then show ?case
    by simp
qed

lemma aabb_ordered:
  assumes "aabb p = Inr (minx, miny, maxx, maxy)"
  shows "minx \<le> maxx \<and> miny \<le> maxy"
proof -
  obtain v vs where o: "outer p = v # vs"
    using assms by (cases "outer p") (simp_all add: aabb_def)
  have "fold min (map fst vs) (fst v) \<le> fold max (map fst vs) (fst v)"
       "fold min (map snd vs) (snd v) \<le> fold max (map snd vs) (snd v)"
    using fold_min_le le_fold_max order_trans by blast+
  with assms o show ?thesis
    by (auto simp: aabb_def)
qed

lemma tile_aabb_ordered:
  assumes "tile_aabb pd mx my vo row col = Inr b"
  shows "fst b \<le> fst (snd (snd b)) \<and> fst (snd b) \<le> snd (snd (snd b))"
proof -
  obtain q ox oy where pl: "tile_placement pd mx my vo row col = (q, ox, oy)"
    by (cases "tile_placement pd mx my vo row col")
  from assms obtain minx miny maxx maxy where
    a: "aabb q = Inr (minx, miny, maxx, maxy)" and b: "b = (minx + ox, miny + oy, maxx + ox, maxy + oy)"
    unfolding tile_aabb_def pl by (auto simp: bind_err_Inr)
  from aabb_ordered [OF a] show ?thesis
    unfolding b by simp
qed

text \<open>The loop over the tiles, when every tile has a bounding box, and when not.\<close>

lemma tiles_fold_all:
  assumes "fold (\<lambda>p acc. bind_err acc (\<lambda>g. bind_err (tb p) (\<lambda>b. Inr (update_global g b))))
             ps (Inr g) = Inr g'"
  shows "\<forall>p \<in> set ps. \<exists>b. tb p = Inr b"
  using assms
proof (induction ps arbitrary: g)
  case Nil
  show ?case by simp
next
  case (Cons p ps)
  show ?case
  proof (cases "tb p")
    case (Inl e)
    with Cons.prems show ?thesis
      by (simp add: fold_bind_err_Inl)
  next
    case (Inr b)
    with Cons.prems have "\<forall>p \<in> set ps. \<exists>b. tb p = Inr b"
      by (intro Cons.IH [of "update_global g b"]) simp
    with Inr show ?thesis
      by (simp del: split_paired_Ex)
  qed
qed

lemma tiles_fold_Inr:
  assumes "\<forall>p \<in> set ps. \<exists>b. tb p = Inr b"
  shows "fold (\<lambda>p acc. bind_err acc (\<lambda>g. bind_err (tb p) (\<lambda>b. Inr (update_global g b))))
             ps (Inr g)
       = Inr (fold (\<lambda>p g. update_global g (projr (tb p))) ps g)"
  using assms
proof (induction ps arbitrary: g)
  case Nil
  show ?case by simp
next
  case (Cons p ps)
  then obtain b where b: "tb p = Inr b"
    by auto
  from Cons.prems have "\<forall>p \<in> set ps. \<exists>b. tb p = Inr b"
    by simp
  from Cons.IH [OF this, of "update_global g b"] b show ?case
    by simp
qed

lemma update_global_Some:
  "update_global (Some (a, b, c, d)) q
     = Some (min a (fst q), min b (fst (snd q)), max c (fst (snd (snd q))), max d (snd (snd (snd q))))"
  by (cases q) auto

lemma pure_fold_Some:
  "fold (\<lambda>p g. update_global g (bx p)) ps (Some (a, b, c, d))
     = Some (fold min (map (\<lambda>p. fst (bx p)) ps) a,
             fold min (map (\<lambda>p. fst (snd (bx p))) ps) b,
             fold max (map (\<lambda>p. fst (snd (snd (bx p)))) ps) c,
             fold max (map (\<lambda>p. snd (snd (snd (bx p)))) ps) d)"
proof (induction ps arbitrary: a b c d)
  case Nil
  show ?case by simp
next
  case (Cons p ps)
  show ?case
    by (simp add: update_global_Some Cons.IH min.commute max.commute)
qed

lemma pure_fold_None:
  assumes "ps \<noteq> []"
  shows "fold (\<lambda>p g. update_global g (bx p)) ps None
     = Some (Min ((\<lambda>p. fst (bx p)) ` set ps),
             Min ((\<lambda>p. fst (snd (bx p))) ` set ps),
             Max ((\<lambda>p. fst (snd (snd (bx p)))) ` set ps),
             Max ((\<lambda>p. snd (snd (snd (bx p)))) ` set ps))"
proof -
  obtain p rest where ps: "ps = p # rest"
    using assms by (cases ps) simp_all
  have start: "update_global None (bx p)
      = Some (fst (bx p), fst (snd (bx p)), fst (snd (snd (bx p))), snd (snd (snd (bx p))))"
    by simp
  have mins: "Min (f ` set (p # rest)) = fold min (map f rest) (f p)"
    and maxs: "Max (f ` set (p # rest)) = fold max (map f rest) (f p)" for f :: "'a \<Rightarrow> real"
    using Min.set_eq_fold [of "f p" "map f rest"] Max.set_eq_fold [of "f p" "map f rest"]
    by simp_all
  show ?thesis
    unfolding ps by (simp only: fold_simps start pure_fold_Some mins maxs)
qed

text \<open>With a cached pattern the method is one loop over the rows and columns of the grid.\<close>

lemma calculate_global_bbox_cached:
  assumes "cache_pattern_data (if obj = ''width'' then nesting_cache_width self
                               else nesting_cache_height self) = Some pd"
    and "aabb (poly1 pd) = Inr (minx1, miny1, maxx1, maxy1)"
  shows "calculate_global_bbox c self tx ty mx my obj
       = fold (\<lambda>p acc. bind_err acc (\<lambda>g.
                 bind_err (tile_aabb pd mx my (maxy1 - miny1 + my) (fst p) (snd p))
                   (\<lambda>b. Inr (update_global g b))))
              (List.product [0 .. ty - 1] [0 .. tx - 1]) (Inr None)"
proof -
  have "calculate_global_bbox c self tx ty mx my obj
       = fold (\<lambda>row acc.
                 fold (\<lambda>col acc'.
                         bind_err acc' (\<lambda>g.
                           bind_err (tile_aabb pd mx my (maxy1 - miny1 + my) row col)
                             (\<lambda>b. Inr (update_global g b))))
                      [0 .. tx - 1] acc)
              [0 .. ty - 1] (Inr None)"
    using assms by (simp add: calculate_global_bbox_def Let_def)
  also have "\<dots> = fold (\<lambda>(row, col) acc'.
                         bind_err acc' (\<lambda>g.
                           bind_err (tile_aabb pd mx my (maxy1 - miny1 + my) row col)
                             (\<lambda>b. Inr (update_global g b))))
                      (List.product [0 .. ty - 1] [0 .. tx - 1]) (Inr None)"
    by (rule nested_fold_product)
  finally show ?thesis
    by (simp add: case_prod_unfold)
qed

lemma calculate_global_bbox_cached_Inr:
  assumes "cache_pattern_data (if obj = ''width'' then nesting_cache_width self
                               else nesting_cache_height self) = Some pd"
    and "calculate_global_bbox c self tx ty mx my obj = Inr B"
  shows "\<exists>b1. aabb (poly1 pd) = Inr b1"
proof (cases "aabb (poly1 pd)")
  case (Inl e)
  with assms show ?thesis
    by (simp add: calculate_global_bbox_def Let_def)
next
  case (Inr b1)
  then show ?thesis
    by blast
qed

text \<open>The box of a non-empty list of tiles, and how it grows with the list.\<close>

lemma boxes_grow:
  fixes bx :: "'a \<Rightarrow> BoundingBox"
  assumes sub: "set ps \<subseteq> set ps'" and ne: "ps \<noteq> []"
    and ordered: "\<forall>p \<in> set ps'. fst (bx p) \<le> fst (snd (snd (bx p))) \<and>
                                  fst (snd (bx p)) \<le> snd (snd (snd (bx p)))"
  shows "\<exists>minx miny maxx maxy minx' miny' maxx' maxy'.
           fold (\<lambda>p g. update_global g (bx p)) ps None = Some (minx, miny, maxx, maxy) \<and>
           fold (\<lambda>p g. update_global g (bx p)) ps' None = Some (minx', miny', maxx', maxy') \<and>
           (maxx - minx) * (maxy - miny) \<le> (maxx' - minx') * (maxy' - miny')"
proof -
  have ne': "ps' \<noteq> []"
    using sub ne by auto
  obtain p where p: "p \<in> set ps"
    using ne by (cases ps) auto
  let ?x0 = "\<lambda>p. fst (bx p)" and ?y0 = "\<lambda>p. fst (snd (bx p))"
  let ?x1 = "\<lambda>p. fst (snd (snd (bx p)))" and ?y1 = "\<lambda>p. snd (snd (snd (bx p)))"
  have img: "f ` set ps \<subseteq> f ` set ps'" "f ` set ps \<noteq> {}" "finite (f ` set ps')"
      "finite (f ` set ps)" "f p \<in> f ` set ps"
    for f :: "'a \<Rightarrow> real"
    using sub p by auto
  have lo: "Min (f ` set ps') \<le> Min (f ` set ps)" for f :: "'a \<Rightarrow> real"
    using img(1-3) [of f] by (rule Min_antimono)
  have hi: "Max (f ` set ps) \<le> Max (f ` set ps')" for f :: "'a \<Rightarrow> real"
    using img(1-3) [of f] by (rule Max_mono)
  have "Min (?x0 ` set ps) \<le> ?x0 p" "?x1 p \<le> Max (?x1 ` set ps)"
       "Min (?y0 ` set ps) \<le> ?y0 p" "?y1 p \<le> Max (?y1 ` set ps)"
    using Min_le [OF img(4) img(5), of ?x0] Max_ge [OF img(4) img(5), of ?x1]
      Min_le [OF img(4) img(5), of ?y0] Max_ge [OF img(4) img(5), of ?y1]
    by blast+
  moreover have "?x0 p \<le> ?x1 p" "?y0 p \<le> ?y1 p"
    using ordered sub p by auto
  ultimately have w0: "0 \<le> Max (?x1 ` set ps) - Min (?x0 ` set ps)"
    and h0: "0 \<le> Max (?y1 ` set ps) - Min (?y0 ` set ps)"
    by linarith+
  have w: "Max (?x1 ` set ps) - Min (?x0 ` set ps) \<le> Max (?x1 ` set ps') - Min (?x0 ` set ps')"
    using lo [of ?x0] hi [of ?x1] by linarith
  have h: "Max (?y1 ` set ps) - Min (?y0 ` set ps) \<le> Max (?y1 ` set ps') - Min (?y0 ` set ps')"
    using lo [of ?y0] hi [of ?y1] by linarith
  have "(Max (?x1 ` set ps) - Min (?x0 ` set ps)) * (Max (?y1 ` set ps) - Min (?y0 ` set ps))
      \<le> (Max (?x1 ` set ps') - Min (?x0 ` set ps')) * (Max (?y1 ` set ps') - Min (?y0 ` set ps'))"
    using w h w0 h0 by (intro mult_mono) linarith+
  then show ?thesis
    unfolding pure_fold_None [OF ne] pure_fold_None [OF ne'] by blast
qed

lemma grid_positions:
  assumes "1 \<le> tx" "tx \<le> tx'" "1 \<le> ty" "ty \<le> ty'"
  shows "set (List.product [0 .. ty - 1] [0 .. tx - 1])
           \<subseteq> set (List.product [0 .. ty' - 1] [0 .. tx' - 1])"
    and "List.product [0 .. ty - 1] [0 .. tx - 1] \<noteq> []"
proof -
  show "set (List.product [0 .. ty - 1] [0 .. tx - 1])
           \<subseteq> set (List.product [0 .. ty' - 1] [0 .. tx' - 1])"
    using assms by auto
  have mem: "(0, 0) \<in> set (List.product [0 .. ty - 1] [0 .. tx - 1])"
    using assms by simp
  show "List.product [0 .. ty - 1] [0 .. tx - 1] \<noteq> []"
  proof
    assume "List.product [0 .. ty - 1] [0 .. tx - 1] = []"
    with mem have "((0::int), (0::int)) \<in> set []"
      by (simp only:)
    then show False
      by simp
  qed
qed

text \<open>A cached pattern whose three polygons have points gives a box for every grid.\<close>

lemma tile_aabb_returns:
  assumes "outer (poly1 pd) \<noteq> []" "outer (poly2T pd) \<noteq> []" "outer (poly3T pd) \<noteq> []"
  shows "\<exists>b. tile_aabb pd mx my vo row col = Inr b"
proof -
  obtain q ox oy where pl: "tile_placement pd mx my vo row col = (q, ox, oy)"
    by (cases "tile_placement pd mx my vo row col")
  have "q = poly1 pd \<or> q = poly2T pd \<or> q = poly3T pd"
    using pl by (auto simp: tile_placement_def Let_def split: if_splits)
  then have "outer q \<noteq> []"
    using assms by auto
  then obtain b where "aabb q = Inr b"
    using aabb_Inr_iff [of q] by blast
  then show ?thesis
    unfolding tile_aabb_def pl by (cases b) simp
qed

lemma calculate_global_bbox_returns:
  assumes "cache_pattern_data (if obj = ''width'' then nesting_cache_width self
                               else nesting_cache_height self) = Some pd"
    and "outer (poly1 pd) \<noteq> []" "outer (poly2T pd) \<noteq> []" "outer (poly3T pd) \<noteq> []"
  shows "\<exists>B. calculate_global_bbox c self tx ty mx my obj = Inr B"
proof -
  obtain b1 where "aabb (poly1 pd) = Inr b1"
    using assms(2) aabb_Inr_iff [of "poly1 pd"] by blast
  then obtain minx1 miny1 maxx1 maxy1 where b1: "aabb (poly1 pd) = Inr (minx1, miny1, maxx1, maxy1)"
    by (cases b1) simp
  have "\<forall>p \<in> set (List.product [0 .. ty - 1] [0 .. tx - 1]).
          \<exists>b. tile_aabb pd mx my (maxy1 - miny1 + my) (fst p) (snd p) = Inr b"
    using tile_aabb_returns [OF assms(2-4)] by blast
  then show ?thesis
    unfolding calculate_global_bbox_cached [OF assms(1) b1]
    by (simp only: tiles_fold_Inr) blast
qed

text \<open>
  Claim C4.  For a cached pattern, any gaps and positive tile counts, the area
  \<open>(maxx - minx) * (maxy - miny)\<close> of the box \<open>calculate_global_bbox\<close> returns does not
  shrink when \<open>tiles_x\<close> or \<open>tiles_y\<close> grows: when the method returns for the larger grid,
  it returns a box of at most that area for the smaller one.
\<close>

theorem global_bbox_area_monotone:
  assumes "cache_pattern_data (if obj = ''width'' then nesting_cache_width self
                               else nesting_cache_height self) = Some pd"
    and "1 \<le> tx" and "tx \<le> tx'" and "1 \<le> ty" and "ty \<le> ty'"
    and "calculate_global_bbox c self tx' ty' mx my obj = Inr B'"
  shows "\<exists>minx miny maxx maxy minx' miny' maxx' maxy'.
           calculate_global_bbox c self tx ty mx my obj = Inr (Some (minx, miny, maxx, maxy)) \<and>
           B' = Some (minx', miny', maxx', maxy') \<and>
           (maxx - minx) * (maxy - miny) \<le> (maxx' - minx') * (maxy' - miny')"
proof -
  obtain b1 where "aabb (poly1 pd) = Inr b1"
    using calculate_global_bbox_cached_Inr [OF assms(1,6)] by blast
  then obtain minx1 miny1 maxx1 maxy1 where b1: "aabb (poly1 pd) = Inr (minx1, miny1, maxx1, maxy1)"
    by (cases b1) simp
  let ?tb = "\<lambda>p. tile_aabb pd mx my (maxy1 - miny1 + my) (fst p) (snd p)"
  let ?bx = "\<lambda>p. projr (?tb p)"
  let ?ps = "List.product [0 .. ty - 1] [0 .. tx - 1]"
  let ?ps' = "List.product [0 .. ty' - 1] [0 .. tx' - 1]"
  have sub: "set ?ps \<subseteq> set ?ps'" and ne: "?ps \<noteq> []"
    using grid_positions [OF assms(2-5)] by blast+
  have all': "\<forall>p \<in> set ?ps'. \<exists>b. ?tb p = Inr b"
    using assms(6) unfolding calculate_global_bbox_cached [OF assms(1) b1]
    by (rule tiles_fold_all)
  then have all: "\<forall>p \<in> set ?ps. \<exists>b. ?tb p = Inr b"
    using sub by blast
  have ordered: "\<forall>p \<in> set ?ps'. fst (?bx p) \<le> fst (snd (snd (?bx p))) \<and>
                                  fst (snd (?bx p)) \<le> snd (snd (snd (?bx p)))"
  proof
    fix p
    assume "p \<in> set ?ps'"
    then obtain b where b: "?tb p = Inr b"
      using all' by blast
    from tile_aabb_ordered [OF b] show "fst (?bx p) \<le> fst (snd (snd (?bx p))) \<and>
                                  fst (snd (?bx p)) \<le> snd (snd (snd (?bx p)))"
      unfolding b by simp
  qed
  have small: "calculate_global_bbox c self tx ty mx my obj
                 = Inr (fold (\<lambda>p g. update_global g (?bx p)) ?ps None)"
    unfolding calculate_global_bbox_cached [OF assms(1) b1] using all by (rule tiles_fold_Inr)
  have large: "B' = fold (\<lambda>p g. update_global g (?bx p)) ?ps' None"
    using assms(6) tiles_fold_Inr [of ?ps' ?tb None, OF all']
    unfolding calculate_global_bbox_cached [OF assms(1) b1] by simp
  from boxes_grow [of ?ps ?ps' ?bx, OF sub ne ordered] show ?thesis
    unfolding small large by blast
qed

theorem global_bbox_area_monotone_witness:
  "calculate_global_bbox example_collaborators example_engine 2 1 0 0 ''width''
     = Inr (Some (0, 0, 10, 10)) \<and>
   calculate_global_bbox example_collaborators example_engine 3 2 0 0 ''width''
     = Inr (Some (0, 0, 15, 20)) \<and>
   (10 - 0) * (10 - 0) \<le> (15 - 0) * (20 - (0::real))"
proof -
  have cached: "cache_pattern_data (if ''width'' = ''width'' then nesting_cache_width example_engine
                               else nesting_cache_height example_engine)
      = Some \<lparr>poly1 = \<lparr>outer = [(0, 0), (5, 0), (5, 10), (0, 10)], holes = []\<rparr>, rects1 = [],
               poly2T = \<lparr>outer = [(0, 0), (5, 0), (5, 10), (0, 10)], holes = []\<rparr>, rects2T = [],
               poly3T = \<lparr>outer = [(0, 0), (5, 0), (5, 10), (0, 10)], holes = []\<rparr>, rects3T = [],
               dx2 = 5, dy2 = 0, dx3 = 10, dy3 = 0, rot1 = 90, rot2 = 0,
               paso_y = 1 / 2, paso_x = 1 / 10, clearance_cm = 0, cached_objective = ''width''\<rparr>"
    by (simp add: example_engine_def store_nesting_result_def cache_store_def Let_def)
  have ev: "[0 .. (0::int)] = [0]" "[0 .. (1::int)] = [0, 1]" "[0 .. (2::int)] = [0, 1, 2]"
    by (simp_all add: upto_rec1)
  have small: "calculate_global_bbox example_collaborators example_engine 2 1 0 0 ''width''
     = Inr (Some (0, 0, 10, 10))"
    by (simp add: calculate_global_bbox_def cached [simplified] Let_def aabb_def tile_aabb_def
          tile_placement_def ev)
  have large: "calculate_global_bbox example_collaborators example_engine 3 2 0 0 ''width''
     = Inr (Some (0, 0, 15, 20))"
    by (simp add: calculate_global_bbox_def cached [simplified] Let_def aabb_def tile_aabb_def
          tile_placement_def ev)
  have h: "(1::int) \<le> 2" "(2::int) \<le> 3" "(1::int) \<le> 1" "(1::int) \<le> 2"
    by simp_all
  from global_bbox_area_monotone [OF cached h large] small
  have "(10 - 0) * (10 - 0) \<le> (15 - 0) * (20 - (0::real))"
    by simp
  with small large show ?thesis
    by blast
qed

section \<open>The response of the layout service\<close>

text \<open>
  \<open>round(x, 2)\<close> returns the float nearest to \<open>k / 100\<close>, where \<open>k\<close> is the integer nearest
  to \<open>100 * x\<close>, the even one on a tie; no other integer has this property.
\<close>

lemma py_round2_nearest:
  "\<exists>k. py_round2 x = double_round (real_of_int k / 100) \<and>
       \<bar>x * 100 - real_of_int k\<bar> \<le> 1 / 2 \<and>
       (\<bar>x * 100 - real_of_int k\<bar> = 1 / 2 \<longrightarrow> even k)"
proof -
  let ?k = "round_half_even (x * 100)"
  have eq: "\<bar>x * 100 - real_of_int ?k\<bar> = \<bar>real_of_int ?k - x * 100\<bar>"
    by (rule abs_minus_commute)
  have n: "\<bar>real_of_int ?k - x * 100\<bar> \<le> 1 / 2"
      "\<bar>real_of_int ?k - x * 100\<bar> = 1 / 2 \<longrightarrow> even ?k"
    using round_half_even_nearest [of "x * 100"] by blast+
  have "py_round2 x = double_round (real_of_int ?k / 100) \<and>
        \<bar>x * 100 - real_of_int ?k\<bar> \<le> 1 / 2 \<and>
        (\<bar>x * 100 - real_of_int ?k\<bar> = 1 / 2 \<longrightarrow> even ?k)"
    unfolding eq using n by (simp add: py_round2_def)
  then show ?thesis ..
qed

lemma py_round2_unique:
  assumes "\<bar>x * 100 - real_of_int k\<bar> \<le> 1 / 2"
    and "\<bar>x * 100 - real_of_int k\<bar> = 1 / 2 \<longrightarrow> even k"
  shows "py_round2 x = double_round (real_of_int k / 100)"
proof -
  have eq: "\<bar>x * 100 - real_of_int k\<bar> = \<bar>real_of_int k - x * 100\<bar>"
    by (rule abs_minus_commute)
  have "round_half_even (x * 100) = k"
    using assms unfolding eq by (rule round_half_even_unique)
  then show ?thesis
    by (simp add: py_round2_def)
qed

text \<open>A result of \<open>round(x, 2)\<close> is less than half an ulp away from a multiple of 0.01.\<close>

lemma double_round_error:
  assumes "pow2 e \<le> \<bar>x\<bar>" and "\<bar>x\<bar> < pow2 (e + 1)"
  shows "\<bar>double_round x - x\<bar> \<le> pow2 (max e (- 1022) - 52) / 2"
proof -
  let ?u = "pow2 (max e (- 1022) - 52)"
  let ?k = "round_half_even (x / ?u)"
  have "\<bar>real_of_int ?k - x / ?u\<bar> \<le> 1 / 2"
    using round_half_even_nearest [of "x / ?u"] by blast
  then have "\<bar>real_of_int ?k - x / ?u\<bar> * ?u \<le> 1 / 2 * ?u"
    by (rule mult_right_mono) simp
  moreover have "\<bar>real_of_int ?k - x / ?u\<bar> * ?u = \<bar>real_of_int ?k * ?u - x\<bar>"
  proof -
    have "\<bar>real_of_int ?k - x / ?u\<bar> * ?u = \<bar>(real_of_int ?k - x / ?u) * ?u\<bar>"
      by (simp add: abs_mult)
    also have "(real_of_int ?k - x / ?u) * ?u = real_of_int ?k * ?u - x"
      by (simp add: left_diff_distrib)
    finally show ?thesis .
  qed
  ultimately show ?thesis
    unfolding double_round_eval [OF assms] by simp
qed

text \<open>
  Claim C10.  \<open>optimize_layout\<close> always returns a response.  With \<open>tiles_x \<le> 0\<close> or
  \<open>tiles_y \<le> 0\<close> the response has \<open>success = False\<close> and a message, and the engine is not
  called.  An exception of the engine becomes \<open>success = False\<close> with the message of the
  exception.  On success the summary has \<open>planilla = tiles_x * tiles_y\<close>, and as measures
  the extents of the box plus the margins of that axis (float sums, taken from left to
  right), rounded to two decimals by \<open>round\<close>: the measure is the float nearest to
  \<open>k / 100\<close> for the integer \<open>k\<close> nearest to a hundred times the sum, the even one on a tie.
\<close>

theorem optimize_layout_response:
  "(rq_tiles_x request \<le> 0 \<or> rq_tiles_y request \<le> 0 \<longrightarrow>
      optimize_layout engine request
        = (\<lparr>success = False, layout = None,
            message = Some ''La cantidad de tiles debe ser mayor a 0 en ambos ejes.''\<rparr>, 0)) \<and>
   (\<forall>exc. 0 < rq_tiles_x request \<and> 0 < rq_tiles_y request \<and>
           engine (rq_params request) (rq_tiles_x request) (rq_tiles_y request)
             (rq_medianil_x request) (rq_medianil_y request) (rq_objective request) = Inl exc \<longrightarrow>
      fst (optimize_layout engine request)
        = \<lparr>success = False, layout = None, message = Some (str_exc exc)\<rparr>) \<and>
   (success (fst (optimize_layout engine request)) \<longrightarrow>
      (\<exists>minx miny maxx maxy summary kx ky.
         engine (rq_params request) (rq_tiles_x request) (rq_tiles_y request)
           (rq_medianil_x request) (rq_medianil_y request) (rq_objective request)
           = Inr (Some (minx, miny, maxx, maxy)) \<and>
         fst (optimize_layout engine request)
           = \<lparr>success = True, layout = Some summary, message = None\<rparr> \<and>
         ls_tiles_x summary = rq_tiles_x request \<and> ls_tiles_y summary = rq_tiles_y request \<and>
         planilla summary = rq_tiles_x request * rq_tiles_y request \<and>
         medida_x_cm summary
           = py_round2 (float_add (float_add (float_sub maxx minx) (sangria_izquierda request))
                          (sangria_derecha request)) \<and>
         medida_x_cm summary = double_round (real_of_int kx / 100) \<and>
         \<bar>float_add (float_add (float_sub maxx minx) (sangria_izquierda request))
            (sangria_derecha request) * 100 - real_of_int kx\<bar> \<le> 1 / 2 \<and>
         (\<bar>float_add (float_add (float_sub maxx minx) (sangria_izquierda request))
             (sangria_derecha request) * 100 - real_of_int kx\<bar> = 1 / 2 \<longrightarrow> even kx) \<and>
         medida_y_cm summary
           = py_round2 (float_add (float_add (float_sub maxy miny) (pinza request))
                          (contra_pinza request)) \<and>
         medida_y_cm summary = double_round (real_of_int ky / 100) \<and>
         \<bar>float_add (float_add (float_sub maxy miny) (pinza request))
            (contra_pinza request) * 100 - real_of_int ky\<bar> \<le> 1 / 2 \<and>
         (\<bar>float_add (float_add (float_sub maxy miny) (pinza request))
             (contra_pinza request) * 100 - real_of_int ky\<bar> = 1 / 2 \<longrightarrow> even ky) \<and>
         area_cm2 summary
           = py_round2
               (float_mul
                  (float_add (float_add (float_sub maxx minx) (sangria_izquierda request))
                     (sangria_derecha request))
                  (float_add (float_add (float_sub maxy miny) (pinza request))
                     (contra_pinza request))))) \<and>
   (\<not> success (fst (optimize_layout engine request)) \<longrightarrow>
      layout (fst (optimize_layout engine request)) = None \<and>
      (\<exists>msg. message (fst (optimize_layout engine request)) = Some msg))"
proof -
  let ?call = "engine (rq_params request) (rq_tiles_x request) (rq_tiles_y request)
                 (rq_medianil_x request) (rq_medianil_y request) (rq_objective request)"
  let ?res = "optimize_layout engine request"
  have c1: "rq_tiles_x request \<le> 0 \<or> rq_tiles_y request \<le> 0 \<longrightarrow>
      ?res = (\<lparr>success = False, layout = None,
               message = Some ''La cantidad de tiles debe ser mayor a 0 en ambos ejes.''\<rparr>, 0)"
    by (simp add: optimize_layout_def)
  have c2: "\<forall>exc. 0 < rq_tiles_x request \<and> 0 < rq_tiles_y request \<and> ?call = Inl exc \<longrightarrow>
      fst ?res = \<lparr>success = False, layout = None, message = Some (str_exc exc)\<rparr>"
    by (simp add: optimize_layout_def)
  have c4: "\<not> success (fst ?res) \<longrightarrow>
      layout (fst ?res) = None \<and> (\<exists>msg. message (fst ?res) = Some msg)"
    by (simp add: optimize_layout_def Let_def split: sum.splits option.splits prod.splits)
  have c3: "success (fst ?res) \<longrightarrow>
      (\<exists>minx miny maxx maxy summary kx ky.
         ?call = Inr (Some (minx, miny, maxx, maxy)) \<and>
         fst ?res = \<lparr>success = True, layout = Some summary, message = None\<rparr> \<and>
         ls_tiles_x summary = rq_tiles_x request \<and> ls_tiles_y summary = rq_tiles_y request \<and>
         planilla summary = rq_tiles_x request * rq_tiles_y request \<and>
         medida_x_cm summary
           = py_round2 (float_add (float_add (float_sub maxx minx) (sangria_izquierda request))
                          (sangria_derecha request)) \<and>
         medida_x_cm summary = double_round (real_of_int kx / 100) \<and>
         \<bar>float_add (float_add (float_sub maxx minx) (sangria_izquierda request))
            (sangria_derecha request) * 100 - real_of_int kx\<bar> \<le> 1 / 2 \<and>
         (\<bar>float_add (float_add (float_sub maxx minx) (sangria_izquierda request))
             (sangria_derecha request) * 100 - real_of_int kx\<bar> = 1 / 2 \<longrightarrow> even kx) \<and>
         medida_y_cm summary
           = py_round2 (float_add (float_add (float_sub maxy miny) (pinza request))
                          (contra_pinza request)) \<and>
         medida_y_cm summary = double_round (real_of_int ky / 100) \<and>
         \<bar>float_add (float_add (float_sub maxy miny) (pinza request))
            (contra_pinza request) * 100 - real_of_int ky\<bar> \<le> 1 / 2 \<and>
         (\<bar>float_add (float_add (float_sub maxy miny) (pinza request))
             (contra_pinza request) * 100 - real_of_int ky\<bar> = 1 / 2 \<longrightarrow> even ky) \<and>
         area_cm2 summary
           = py_round2
               (float_mul
                  (float_add (float_add (float_sub maxx minx) (sangria_izquierda request))
                     (sangria_derecha request))
                  (float_add (float_add (float_sub maxy miny) (pinza request))
                     (contra_pinza request))))"
  proof
    assume s: "success (fst ?res)"
    then have pos: "\<not> (rq_tiles_x request \<le> 0 \<or> rq_tiles_y request \<le> 0)"
      by (auto simp: optimize_layout_def)
    from s pos obtain bbox where call: "?call = Inr (Some bbox)"
      by (auto simp: optimize_layout_def split: sum.splits option.splits)
    obtain minx miny maxx maxy where bbox: "bbox = (minx, miny, maxx, maxy)"
      by (cases bbox)
    let ?X = "float_add (float_add (float_sub maxx minx) (sangria_izquierda request))
                (sangria_derecha request)"
    let ?Y = "float_add (float_add (float_sub maxy miny) (pinza request)) (contra_pinza request)"
    let ?summary = "\<lparr>ls_tiles_x = rq_tiles_x request, ls_tiles_y = rq_tiles_y request,
                      planilla = rq_tiles_x request * rq_tiles_y request,
                      medida_x_cm = py_round2 ?X, medida_y_cm = py_round2 ?Y,
                      area_cm2 = py_round2 (float_mul ?X ?Y),
                      ls_objective = rq_objective request\<rparr>"
    have res: "fst ?res = \<lparr>success = True, layout = Some ?summary, message = None\<rparr>"
      using pos call bbox by (simp add: optimize_layout_def Let_def)
    obtain kx where kx: "py_round2 ?X = double_round (real_of_int kx / 100)"
        "\<bar>?X * 100 - real_of_int kx\<bar> \<le> 1 / 2"
        "\<bar>?X * 100 - real_of_int kx\<bar> = 1 / 2 \<longrightarrow> even kx"
      using py_round2_nearest [of ?X] by blast
    obtain ky where ky: "py_round2 ?Y = double_round (real_of_int ky / 100)"
        "\<bar>?Y * 100 - real_of_int ky\<bar> \<le> 1 / 2"
        "\<bar>?Y * 100 - real_of_int ky\<bar> = 1 / 2 \<longrightarrow> even ky"
      using py_round2_nearest [of ?Y] by blast
    have "?call = Inr (Some (minx, miny, maxx, maxy)) \<and>
         fst ?res = \<lparr>success = True, layout = Some ?summary, message = None\<rparr> \<and>
         ls_tiles_x ?summary = rq_tiles_x request \<and> ls_tiles_y ?summary = rq_tiles_y request \<and>
         planilla ?summary = rq_tiles_x request * rq_tiles_y request \<and>
         medida_x_cm ?summary = py_round2 ?X \<and>
         medida_x_cm ?summary = double_round (real_of_int kx / 100) \<and>
         \<bar>?X * 100 - real_of_int kx\<bar> \<le> 1 / 2 \<and>
         (\<bar>?X * 100 - real_of_int kx\<bar> = 1 / 2 \<longrightarrow> even kx) \<and>
         medida_y_cm ?summary = py_round2 ?Y \<and>
         medida_y_cm ?summary = double_round (real_of_int ky / 100) \<and>
         \<bar>?Y * 100 - real_of_int ky\<bar> \<le> 1 / 2 \<and>
         (\<bar>?Y * 100 - real_of_int ky\<bar> = 1 / 2 \<longrightarrow> even ky) \<and>
         area_cm2 ?summary = py_round2 (float_mul ?X ?Y)"
      using call bbox res kx ky by simp
    then show "\<exists>minx miny maxx maxy summary kx ky.
         ?call = Inr (Some (minx, miny, maxx, maxy)) \<and>
         fst ?res = \<lparr>success = True, layout = Some summary, message = None\<rparr> \<and>
         ls_tiles_x summary = rq_tiles_x request \<and> ls_tiles_y summary = rq_tiles_y request \<and>
         planilla summary = rq_tiles_x request * rq_tiles_y request \<and>
         medida_x_cm summary
           = py_round2 (float_add (float_add (float_sub maxx minx) (sangria_izquierda request))
                          (sangria_derecha request)) \<and>
         medida_x_cm summary = double_round (real_of_int kx / 100) \<and>
         \<bar>float_add (float_add (float_sub maxx minx) (sangria_izquierda request))
            (sangria_derecha request) * 100 - real_of_int kx\<bar> \<le> 1 / 2 \<and>
         (\<bar>float_add (float_add (float_sub maxx minx) (sangria_izquierda request))
             (sangria_derecha request) * 100 - real_of_int kx\<bar> = 1 / 2 \<longrightarrow> even kx) \<and>
         medida_y_cm summary
           = py_round2 (float_add (float_add (float_sub maxy miny) (pinza request))
                          (contra_pinza request)) \<and>
         medida_y_cm summary = double_round (real_of_int ky / 100) \<and>
         \<bar>float_add (float_add (float_sub maxy miny) (pinza request))
            (contra_pinza request) * 100 - real_of_int ky\<bar> \<le> 1 / 2 \<and>
         (\<bar>float_add (float_add (float_sub maxy miny) (pinza request))
             (contra_pinza request) * 100 - real_of_int ky\<bar> = 1 / 2 \<longrightarrow> even ky) \<and>
         area_cm2 summary
           = py_round2
               (float_mul
                  (float_add (float_add (float_sub maxx minx) (sangria_izquierda request))
                     (sangria_derecha request))
                  (float_add (float_add (float_sub maxy miny) (pinza request))
                     (contra_pinza request)))"
      by (intro exI)
  qed
  from c1 c2 c3 c4 show ?thesis
    by (intro conjI)
qed

theorem optimize_layout_response_witness:
  "optimize_layout (\<lambda>p tx ty mx my obj. Inr (Some (0, 0, 10, 81 / 4)))
     \<lparr>rq_params = example_params, rq_tiles_x = 0, rq_tiles_y = 2,
      rq_medianil_x = 0, rq_medianil_y = 0, rq_paso_y = 1 / 2, rq_paso_x = 1 / 10,
      rq_clearance_cm = 0, sangria_izquierda = 1 / 2,
      sangria_derecha = 1080863910568919 / 72057594037927936, pinza = 1 / 4,
      contra_pinza = 1 / 8, rq_objective = ''width''\<rparr>
     = (\<lparr>success = False, layout = None,
         message = Some ''La cantidad de tiles debe ser mayor a 0 en ambos ejes.''\<rparr>, 0) \<and>
   fst (optimize_layout (\<lambda>p tx ty mx my obj. Inl (ValueError ''min() arg is an empty sequence''))
     \<lparr>rq_params = example_params, rq_tiles_x = 2, rq_tiles_y = 2,
      rq_medianil_x = 0, rq_medianil_y = 0, rq_paso_y = 1 / 2, rq_paso_x = 1 / 10,
      rq_clearance_cm = 0, sangria_izquierda = 1 / 2,
      sangria_derecha = 1080863910568919 / 72057594037927936, pinza = 1 / 4,
      contra_pinza = 1 / 8, rq_objective = ''width''\<rparr>)
     = \<lparr>success = False, layout = None, message = Some ''min() arg is an empty sequence''\<rparr> \<and>
   (\<exists>summary.
      fst (optimize_layout (\<lambda>p tx ty mx my obj. Inr (Some (0, 0, 10, 81 / 4)))
        \<lparr>rq_params = example_params, rq_tiles_x = 2, rq_tiles_y = 2,
         rq_medianil_x = 0, rq_medianil_y = 0, rq_paso_y = 1 / 2, rq_paso_x = 1 / 10,
         rq_clearance_cm = 0, sangria_izquierda = 1 / 2,
         sangria_derecha = 1080863910568919 / 72057594037927936, pinza = 1 / 4,
         contra_pinza = 1 / 8, rq_objective = ''width''\<rparr>)
        = \<lparr>success = True, layout = Some summary, message = None\<rparr> \<and>
      planilla summary = 4 \<and>
      medida_x_cm summary = 2961116754996101 / 281474976710656 \<and>
      medida_y_cm summary = 5804014019773727 / 281474976710656 \<and>
      area_cm2 summary = 1907608693726249 / 8796093022208) \<and>
   double_round (1080863910568919 / 72057594037927936) = 1080863910568919 / 72057594037927936 \<and>
   double_round (263 / 25) = 2961116754996101 / 281474976710656 \<and>
   double_round (1031 / 50) = 5804014019773727 / 281474976710656 \<and>
   double_round (21687 / 100) = 1907608693726249 / 8796093022208"
proof -
  let ?ok = "\<lambda>(p :: PlanoParams) (tx :: int) (ty :: int) (mx :: real) (my :: real) (obj :: string).
               Inr (Some (0, 0, 10, 81 / 4)) :: error + BoundingBox option"
  let ?bad = "\<lambda>(p :: PlanoParams) (tx :: int) (ty :: int) (mx :: real) (my :: real) (obj :: string).
               Inl (ValueError ''min() arg is an empty sequence'') :: error + BoundingBox option"
  let ?rq = "\<lambda>tx. \<lparr>rq_params = example_params, rq_tiles_x = tx, rq_tiles_y = 2,
      rq_medianil_x = 0, rq_medianil_y = 0, rq_paso_y = 1 / 2, rq_paso_x = 1 / 10,
      rq_clearance_cm = 0, sangria_izquierda = 1 / 2,
      sangria_derecha = 1080863910568919 / 72057594037927936, pinza = 1 / 4,
      contra_pinza = 1 / 8, rq_objective = ''width''\<rparr>"
  have f015: "double_round (1080863910568919 / 72057594037927936)
            = 1080863910568919 / 72057594037927936"
    using double_round_eval [of "- 7" "1080863910568919 / 72057594037927936"]
    by (simp add: pow2_def round_half_even_def)
  have f1052: "double_round (263 / 25) = 2961116754996101 / 281474976710656"
    using double_round_eval [of 3 "263 / 25"] by (simp add: pow2_def round_half_even_def)
  have f2062: "double_round (1031 / 50) = 5804014019773727 / 281474976710656"
    using double_round_eval [of 4 "1031 / 50"] by (simp add: pow2_def round_half_even_def)
  have f21687: "double_round (21687 / 100) = 1907608693726249 / 8796093022208"
    using double_round_eval [of 7 "21687 / 100"] by (simp add: pow2_def round_half_even_def)
  have x: "float_sub 10 0 = 10" "float_add 10 (1 / 2) = 21 / 2"
      "float_add (21 / 2) (1080863910568919 / 72057594037927936)
         = 739927345028137 / 70368744177664"
    using double_round_eval [of 3 "21 / 2"]
      double_round_eval [of 3 "21 / 2 + 1080863910568919 / 72057594037927936"]
    by (simp_all add: float_sub_def float_add_def double_round_int pow2_def round_half_even_def)
  have y: "float_sub (81 / 4) 0 = 81 / 4" "float_add (81 / 4) (1 / 4) = 41 / 2"
      "float_add (41 / 2) (1 / 8) = 165 / 8"
    using double_round_eval [of 4 "81 / 4"] double_round_eval [of 4 "41 / 2"]
      double_round_eval [of 4 "165 / 8"]
    by (simp_all add: float_sub_def float_add_def pow2_def round_half_even_def)
  have xy: "float_mul (739927345028137 / 70368744177664) (165 / 8)
          = 7630500745602663 / 35184372088832"
    using double_round_eval [of 7 "739927345028137 / 70368744177664 * (165 / 8)"]
    by (simp add: float_mul_def pow2_def round_half_even_def)
  have r: "py_round2 (739927345028137 / 70368744177664) = 2961116754996101 / 281474976710656"
      "py_round2 (165 / 8) = 5804014019773727 / 281474976710656"
      "py_round2 (7630500745602663 / 35184372088832) = 1907608693726249 / 8796093022208"
    by (simp_all add: py_round2_def round_half_even_def f1052 f2062 f21687)
  have s: "success (fst (optimize_layout ?ok (?rq 2)))"
    by (simp add: optimize_layout_def Let_def)
  have a: "optimize_layout ?ok (?rq 0)
     = (\<lparr>success = False, layout = None,
         message = Some ''La cantidad de tiles debe ser mayor a 0 en ambos ejes.''\<rparr>, 0)"
    using optimize_layout_response [of "?rq 0" ?ok] by simp
  have b: "fst (optimize_layout ?bad (?rq 2))
     = \<lparr>success = False, layout = None, message = Some ''min() arg is an empty sequence''\<rparr>"
    using optimize_layout_response [of "?rq 2" ?bad] by simp
  note t = optimize_layout_response [of "?rq 2" ?ok,
      THEN conjunct2, THEN conjunct2, THEN conjunct1, THEN mp, OF s]
  from t obtain minx miny maxx maxy summary where
    e: "?ok (rq_params (?rq 2)) (rq_tiles_x (?rq 2)) (rq_tiles_y (?rq 2))
          (rq_medianil_x (?rq 2)) (rq_medianil_y (?rq 2)) (rq_objective (?rq 2))
        = Inr (Some (minx, miny, maxx, maxy))"
    and f: "fst (optimize_layout ?ok (?rq 2))
        = \<lparr>success = True, layout = Some summary, message = None\<rparr>"
    and p: "planilla summary = rq_tiles_x (?rq 2) * rq_tiles_y (?rq 2)"
    and mx: "medida_x_cm summary
        = py_round2 (float_add (float_add (float_sub maxx minx) (sangria_izquierda (?rq 2)))
                       (sangria_derecha (?rq 2)))"
    and my: "medida_y_cm summary
        = py_round2 (float_add (float_add (float_sub maxy miny) (pinza (?rq 2)))
                       (contra_pinza (?rq 2)))"
    and ar: "area_cm2 summary
        = py_round2
            (float_mul
               (float_add (float_add (float_sub maxx minx) (sangria_izquierda (?rq 2)))
                  (sangria_derecha (?rq 2)))
               (float_add (float_add (float_sub maxy miny) (pinza (?rq 2)))
                  (contra_pinza (?rq 2))))"
    by blast
  from e have box: "minx = 0" "miny = 0" "maxx = 10" "maxy = 81 / 4"
    by simp_all
  have p4: "planilla summary = 4"
    using p by simp
  have mx': "medida_x_cm summary = 2961116754996101 / 281474976710656"
    unfolding mx box by (simp only: LayoutRequest.simps x r)
  have my': "medida_y_cm summary = 5804014019773727 / 281474976710656"
    unfolding my box by (simp only: LayoutRequest.simps y r)
  have ar': "area_cm2 summary = 1907608693726249 / 8796093022208"
    unfolding ar box by (simp only: LayoutRequest.simps x y xy r)
  from f p4 mx' my' ar' have c: "\<exists>summary.
      fst (optimize_layout ?ok (?rq 2))
        = \<lparr>success = True, layout = Some summary, message = None\<rparr> \<and>
      planilla summary = 4 \<and>
      medida_x_cm summary = 2961116754996101 / 281474976710656 \<and>
      medida_y_cm summary = 5804014019773727 / 281474976710656 \<and>
      area_cm2 summary = 1907608693726249 / 8796093022208"
    by blast
  from a b c f015 f1052 f2062 f21687 show ?thesis
    by (intro conjI)
qed

text \<open>
  The rounding of the sums can decide the second decimal: in the example above the float
  sum \<open>10.0 + 0.5 + 0.015\<close> lies above 10.515 and is rounded to 10.52, while the sum of the
  same three floats in exact arithmetic lies below 10.515 and would be rounded to 10.51.
\<close>

lemma float_sum_decides_the_rounding:
  "py_round2 (float_add (float_add 10 (1 / 2)) (1080863910568919 / 72057594037927936))
     = double_round (1052 / 100) \<and>
   py_round2 (10 + 1 / 2 + 1080863910568919 / 72057594037927936) = double_round (1051 / 100)"
proof -
  have x: "float_add 10 (1 / 2) = 21 / 2"
      "float_add (21 / 2) (1080863910568919 / 72057594037927936)
         = 739927345028137 / 70368744177664"
    using double_round_eval [of 3 "21 / 2"]
      double_round_eval [of 3 "21 / 2 + 1080863910568919 / 72057594037927936"]
    by (simp_all add: float_add_def pow2_def round_half_even_def)
  show ?thesis
    by (simp add: x py_round2_def round_half_even_def)
qed

end
